theory Spec2Isabelle
  imports Main
begin

section \<open>JavaScript values and control flow\<close>

text \<open>
  The controller \<^verbatim>\<open>src/js/background/controllers/hub.js\<close> works on decoded JSON
  and on a few values of its own making. A value is one of the JSON shapes, or
  \<^verbatim>\<open>undefined\<close> (a missing property), or \<open>JExt v ps\<close>: the object that
  \<^verbatim>\<open>ToObject(v)\<close> gives for an array or a primitive \<open>v\<close>, carrying the
  further own properties \<open>ps\<close> (what \<^verbatim>\<open>Object.assign\<close> and a property
  assignment leave behind on a target that is not a plain object). Objects keep their
  properties in insertion order. Strings are byte strings (UTF-8). Numbers are the
  integers: fractions, exponents and rounding of IEEE doubles are outside the model.
\<close>

datatype jsval =
    JUndefined
  | JNull
  | JBool bool
  | JNum int
  | JStr string
  | JArr "jsval list"
  | JObj "(string \<times> jsval) list"
  | JExt jsval "(string \<times> jsval) list"

text \<open>
  What can be thrown: \<open>Error a\<close> is \<^verbatim>\<open>new Error(a)\<close>, kept with the
  constructor's argument; \<open>TypeError\<close> is any TypeError of the language or the
  platform (reading a property of null, calling what is not a function, an invalid
  URL, a failed network request), its message left out.
\<close>

datatype js_error = Error jsval | TypeError

text \<open>
  A call either returns or throws (\<open>completion\<close>); a promise, once settled, is
  resolved or rejected (\<open>promise\<close>). A function that is not \<^verbatim>\<open>async\<close> and
  returns a promise has both layers: it can throw before any promise exists.
\<close>

datatype 'a completion = Returns 'a | Throws js_error

datatype 'a promise = Resolved 'a | Rejected js_error

text \<open>\<^verbatim>\<open>await e\<close> inside an async function: a throw of \<open>e\<close> and a rejection
  of its promise both reject the function's own promise.\<close>

fun await :: "'a promise completion \<Rightarrow> 'a promise" where
  "await (Throws e) = Rejected e"
| "await (Returns p) = p"

text \<open>\<^verbatim>\<open>p.catch(() => null)\<close>\<close>

fun catch_null :: "jsval promise \<Rightarrow> jsval promise" where
  "catch_null (Resolved v) = Resolved v"
| "catch_null (Rejected e) = Resolved JNull"

text \<open>\<^verbatim>\<open>Boolean(v)\<close>, the test of \<^verbatim>\<open>if (v)\<close> and \<^verbatim>\<open>v ? a : b\<close>.\<close>

fun truthy :: "jsval \<Rightarrow> bool" where
  "truthy JUndefined = False"
| "truthy JNull = False"
| "truthy (JBool b) = b"
| "truthy (JNum n) = (n \<noteq> 0)"
| "truthy (JStr s) = (s \<noteq> [])"
| "truthy (JArr xs) = True"
| "truthy (JObj ps) = True"
| "truthy (JExt v ps) = True"

text \<open>
  \<^verbatim>\<open>v.k\<close> and the destructuring \<^verbatim>\<open>{ k }\<close> of \<open>v\<close>, for a name \<open>k\<close> that
  is neither an index nor a built-in property of arrays and strings (the names hub.js
  reads are \<^verbatim>\<open>items\<close>, \<^verbatim>\<open>source\<close>, \<^verbatim>\<open>vulnerabilityName\<close>,
  \<^verbatim>\<open>errorMessage\<close>, \<^verbatim>\<open>componentVersion\<close>, \<^verbatim>\<open>version\<close>,
  \<^verbatim>\<open>projectName\<close>, \<^verbatim>\<open>projectVersionUrl\<close>, \<^verbatim>\<open>forgeName\<close>,
  \<^verbatim>\<open>hubExternalId\<close>, \<^verbatim>\<open>username\<close> and \<^verbatim>\<open>password\<close>): a TypeError on null and undefined, the property's value on
  an object that has it, \<^verbatim>\<open>undefined\<close> otherwise (the array or primitive
  under a \<open>JExt\<close> has none of these names).
\<close>

fun get_prop :: "jsval \<Rightarrow> string \<Rightarrow> jsval completion" where
  "get_prop JUndefined k = Throws TypeError"
| "get_prop JNull k = Throws TypeError"
| "get_prop (JObj ps) k = Returns (case map_of ps k of None \<Rightarrow> JUndefined | Some x \<Rightarrow> x)"
| "get_prop (JExt v ps) k = Returns (case map_of ps k of None \<Rightarrow> JUndefined | Some x \<Rightarrow> x)"
| "get_prop v k = Returns JUndefined"

text \<open>Writing an own property: an existing key keeps its place, a new one goes last.\<close>

fun put_prop :: "(string \<times> jsval) list \<Rightarrow> string \<Rightarrow> jsval \<Rightarrow> (string \<times> jsval) list" where
  "put_prop [] k x = [(k, x)]"
| "put_prop ((k', y) # ps) k x = (if k' = k then (k, x) # ps else (k', y) # put_prop ps k x)"

text \<open>
  \<^verbatim>\<open>v.k = x\<close> in strict code (a class body is strict): a TypeError on null,
  undefined and on a primitive (no property can be created on it); an object or an
  array takes the property.
\<close>

fun set_prop :: "jsval \<Rightarrow> string \<Rightarrow> jsval \<Rightarrow> jsval completion" where
  "set_prop (JObj ps) k x = Returns (JObj (put_prop ps k x))"
| "set_prop (JArr xs) k x = Returns (JExt (JArr xs) [(k, x)])"
| "set_prop (JExt v ps) k x = Returns (JExt v (put_prop ps k x))"
| "set_prop v k x = Throws TypeError"

text \<open>
  \<^verbatim>\<open>Object.assign(v, { k: x })\<close> with a one-property source: a TypeError on null
  and undefined; a primitive is boxed and the box takes the property.
\<close>

fun Object_assign1 :: "jsval \<Rightarrow> string \<Rightarrow> jsval \<Rightarrow> jsval completion" where
  "Object_assign1 JUndefined k x = Throws TypeError"
| "Object_assign1 JNull k x = Throws TypeError"
| "Object_assign1 (JObj ps) k x = Returns (JObj (put_prop ps k x))"
| "Object_assign1 (JExt v ps) k x = Returns (JExt v (put_prop ps k x))"
| "Object_assign1 v k x = Returns (JExt v [(k, x)])"

text \<open>
  \<^verbatim>\<open>a === b\<close> where one side was decoded inside the call that compares: equal
  primitives of one type are equal; an object or array is equal only to itself, and a
  freshly decoded one is no value the caller holds.
\<close>

fun strict_equals :: "jsval \<Rightarrow> jsval \<Rightarrow> bool" where
  "strict_equals JUndefined b = (b = JUndefined)"
| "strict_equals JNull b = (b = JNull)"
| "strict_equals (JBool x) b = (b = JBool x)"
| "strict_equals (JNum x) b = (b = JNum x)"
| "strict_equals (JStr x) b = (b = JStr x)"
| "strict_equals a b = False"

text \<open>The elements of \<open>v\<close> when it is an array (what \<^verbatim>\<open>v.map\<close> and
  \<^verbatim>\<open>v.filter\<close> run over); on anything else the method call is a TypeError.\<close>

fun as_array :: "jsval \<Rightarrow> jsval list option" where
  "as_array (JArr xs) = Some xs"
| "as_array (JExt (JArr xs) ps) = Some xs"
| "as_array v = None"

subsection \<open>String conversion\<close>

fun digit_char :: "nat \<Rightarrow> char" where
  "digit_char n = (''0123456789ABCDEF'') ! (n mod 16)"

fun nat_to_string :: "nat \<Rightarrow> string" where
  "nat_to_string n = (if n < 10 then [digit_char n] else nat_to_string (n div 10) @ [digit_char (n mod 10)])"

declare nat_to_string.simps [simp del]

definition int_to_string :: "int \<Rightarrow> string" where
  "int_to_string i = (if i < 0 then CHR ''-'' # nat_to_string (nat (- i)) else nat_to_string (nat i))"

fun join_comma :: "string list \<Rightarrow> string" where
  "join_comma [] = []"
| "join_comma [s] = s"
| "join_comma (s # t # ss) = s @ '','' @ join_comma (t # ss)"

text \<open>
  The string a template literal puts in for \<^verbatim>\<open>${v}\<close>. An array joins
  its elements with commas, null and undefined elements as the empty string; a plain
  object is \<^verbatim>\<open>[object Object]\<close>. Integers print in decimal (magnitudes below
  \<open>10^21\<close>).
\<close>

fun ToString :: "jsval \<Rightarrow> string" where
  "ToString JUndefined = ''undefined''"
| "ToString JNull = ''null''"
| "ToString (JBool b) = (if b then ''true'' else ''false'')"
| "ToString (JNum n) = int_to_string n"
| "ToString (JStr s) = s"
| "ToString (JArr xs) =
     join_comma (map (\<lambda>x. if x = JUndefined \<or> x = JNull then [] else ToString x) xs)"
| "ToString (JObj ps) = ''[object Object]''"
| "ToString (JExt v ps) = ToString v"

section \<open>The platform: URLs, the fetch primitive, the collaborators\<close>

subsection \<open>URL and URLSearchParams\<close>

text \<open>
  The URL class of the platform, for what hub.js does with it: \<^verbatim>\<open>new URL(s)\<close>,
  the \<^verbatim>\<open>pathname\<close> setter, \<^verbatim>\<open>searchParams.append\<close> and the conversion to
  a string. Only \<^verbatim>\<open>http\<close> and \<^verbatim>\<open>https\<close> URLs are modelled (a Hub is
  reached over one of them): every other string is reported invalid, which the platform
  does with a TypeError for a string that has no scheme. Scheme and host are put in
  lower case and special characters of a path are percent-encoded; dot segments,
  default ports and user information are kept as written, and so is a query the URL
  already has when a parameter is appended.
\<close>

record url =
  url_protocol :: string
  url_host :: string
  url_pathname :: string
  url_query :: "string option"
  url_fragment :: "string option"

definition href :: "url \<Rightarrow> string" where
  "href u =
     url_protocol u @ ''//'' @ url_host u @ url_pathname u
     @ (case url_query u of None \<Rightarrow> [] | Some q \<Rightarrow> CHR ''?'' # q)
     @ (case url_fragment u of None \<Rightarrow> [] | Some f \<Rightarrow> CHR ''#'' # f)"

definition ascii_lower :: "char \<Rightarrow> char" where
  "ascii_lower c =
     (let n = (of_char c :: nat) in if 65 \<le> n \<and> n \<le> 90 then char_of (n + 32) else c)"

definition percent_encode :: "char \<Rightarrow> string" where
  "percent_encode c =
     (let n = (of_char c :: nat) in [CHR ''%'', digit_char (n div 16), digit_char (n mod 16)])"

text \<open>The path percent-encode set: controls, the space, bytes above \<^verbatim>\<open>~\<close>,
  and the double quote, \<^verbatim>\<open>#\<close>, \<^verbatim>\<open><\<close>, \<^verbatim>\<open>>\<close>, \<^verbatim>\<open>?\<close>,
  \<^verbatim>\<open>^\<close>, the grave accent and the braces, by their codes.\<close>

definition path_encode :: "string \<Rightarrow> string" where
  "path_encode s =
     concat (map (\<lambda>c. let n = (of_char c :: nat) in
       if n < 33 \<or> 126 < n \<or> n \<in> set [34, 35, 60, 62, 63, 94, 96, 123, 125]
       then percent_encode c else [c]) s)"

text \<open>The application/x-www-form-urlencoded byte serialiser: letters, digits and
  \<^verbatim>\<open>*-._\<close> stay, a space becomes \<^verbatim>\<open>+\<close>, every other byte is
  percent-encoded.\<close>

definition urlencode :: "string \<Rightarrow> string" where
  "urlencode s =
     concat (map (\<lambda>c. let n = (of_char c :: nat) in
       if c = CHR '' '' then ''+''
       else if (48 \<le> n \<and> n \<le> 57) \<or> (65 \<le> n \<and> n \<le> 90) \<or> (97 \<le> n \<and> n \<le> 122)
               \<or> c \<in> set ''*-._'' then [c]
       else percent_encode c) s)"

definition startsWith_slash :: "string \<Rightarrow> bool" where
  "startsWith_slash s = (case s of [] \<Rightarrow> False | c # _ \<Rightarrow> c = CHR ''/'')"

definition URL_new :: "string \<Rightarrow> url completion" where
  "URL_new s =
     (let scheme = map ascii_lower (takeWhile (\<lambda>c. c \<noteq> CHR '':'') s);
          after = dropWhile (\<lambda>c. c \<noteq> CHR '':'') s
      in if after = [] \<or> (scheme \<noteq> ''http'' \<and> scheme \<noteq> ''https'') then Throws TypeError
         else
           let rest = dropWhile (\<lambda>c. c = CHR ''/'') (tl after);
               authority = takeWhile (\<lambda>c. c \<notin> set ''/?#'') rest;
               rest2 = dropWhile (\<lambda>c. c \<notin> set ''/?#'') rest;
               path = takeWhile (\<lambda>c. c \<notin> set ''?#'') rest2;
               rest3 = dropWhile (\<lambda>c. c \<notin> set ''?#'') rest2;
               has_query = (case rest3 of [] \<Rightarrow> False | c # _ \<Rightarrow> c = CHR ''?'');
               query = takeWhile (\<lambda>c. c \<noteq> CHR ''#'') (tl rest3);
               rest4 = (if has_query then dropWhile (\<lambda>c. c \<noteq> CHR ''#'') (tl rest3) else rest3)
           in if authority = [] then Throws TypeError
              else Returns \<lparr>
                url_protocol = scheme @ '':'',
                url_host = map ascii_lower authority,
                url_pathname = (if path = [] then ''/'' else path_encode path),
                url_query = (if has_query then Some query else None),
                url_fragment = (case rest4 of [] \<Rightarrow> None | c # f \<Rightarrow> Some f) \<rparr>)"

text \<open>\<^verbatim>\<open>url.pathname = p\<close>\<close>

definition set_pathname :: "url \<Rightarrow> string \<Rightarrow> url" where
  "set_pathname u p =
     u\<lparr>url_pathname := path_encode (if startsWith_slash p then p else CHR ''/'' # p)\<rparr>"

text \<open>\<^verbatim>\<open>url.searchParams.append(k, v)\<close>\<close>

definition searchParams_append :: "url \<Rightarrow> string \<Rightarrow> string \<Rightarrow> url" where
  "searchParams_append u k v =
     (let pair = urlencode k @ ''='' @ urlencode v
      in u\<lparr>url_query :=
           Some (case url_query u of None \<Rightarrow> pair
                 | Some q \<Rightarrow> if q = [] then pair else q @ ''&'' @ pair)\<rparr>)"

subsection \<open>Requests, responses and the trace of effects\<close>

text \<open>
  The options object handed to the fetch primitive, with the keys hub.js sets; a key
  that is not set is \<open>None\<close>. \<open>assign_opts t s\<close> is \<^verbatim>\<open>Object.assign(t, s)\<close>:
  the keys of \<open>s\<close> win, and \<open>no_opts\<close> stands for a source that is undefined.
\<close>

record fetch_opts =
  opt_credentials :: "string option"
  opt_method :: "string option"
  opt_headers :: "(string \<times> string) list option"
  opt_body :: "string option"

definition no_opts :: fetch_opts where
  "no_opts = \<lparr>opt_credentials = None, opt_method = None, opt_headers = None, opt_body = None\<rparr>"

definition orElse :: "'a option \<Rightarrow> 'a option \<Rightarrow> 'a option" where
  "orElse s t = (case s of None \<Rightarrow> t | Some x \<Rightarrow> Some x)"

definition assign_opts :: "fetch_opts \<Rightarrow> fetch_opts \<Rightarrow> fetch_opts" where
  "assign_opts t s =
     \<lparr>opt_credentials = orElse (opt_credentials s) (opt_credentials t),
      opt_method = orElse (opt_method s) (opt_method t),
      opt_headers = orElse (opt_headers s) (opt_headers t),
      opt_body = orElse (opt_body s) (opt_body t)\<rparr>"

record request =
  req_url :: string
  req_opts :: fetch_opts

text \<open>What the fetch primitive gives back: a rejection (no response at all), or a
  response with its \<^verbatim>\<open>ok\<close> flag and what \<^verbatim>\<open>response.json()\<close> decodes
  (\<open>None\<close> when the body is not JSON and the decoding rejects).\<close>

record response =
  resp_ok :: bool
  resp_json :: "jsval option"

datatype net_outcome = NetRejects js_error | NetResponds response

text \<open>The effects a call leaves behind, in the order they are issued: a permission
  request to the collaborator, a call of the fetch primitive.\<close>

datatype event = PermissionRequest string | FetchCall request

text \<open>
  The surroundings of the controller: the stored Hub origin (\<^verbatim>\<open>store.getState\<close>,
  \<open>None\<close> when nothing is stored), the permission collaborator
  (\<^verbatim>\<open>Permissions.requestUrl\<close>: \<open>None\<close> when granted, the error it fails with
  otherwise) and the network behind the fetch primitive, which answers a request by
  what the request is.
\<close>

record env =
  hubOrigin :: "string option"
  Permissions_requestUrl :: "string \<Rightarrow> js_error option"
  global_fetch :: "request \<Rightarrow> net_outcome"

subsection \<open>Resources and their links\<close>

text \<open>
  Modelled from the spec: the resources that the class HateoasModel
  (\<^verbatim>\<open>../models/hateoas-model\<close>, imported by hub.js and not among the sources)
  wraps. By the spec a resource is an opaque object returned by the server that exposes
  a link collection keyed by relation name, each entry with zero or more URLs, the first
  one authoritative.
\<close>

record resource =
  res_fields :: "(string \<times> jsval) list"
  res_links :: "(string \<times> string list) list"

text \<open>
  Modelled from the spec: \<^verbatim>\<open>getFirstLink\<close> of HateoasModel, the lookup of a
  relation name in the link collection, which is missing with its class. By the spec
  the lookup is by the exact name and gives "absent", distinct from an empty list of
  targets, for a name the collection does not have. As hub.js calls it, the result is
  null for an absent name and the first URL of the entry otherwise (undefined when the
  entry lists none).
\<close>

definition getFirstLink :: "resource \<Rightarrow> string \<Rightarrow> jsval" where
  "getFirstLink model relationship =
     (case map_of (res_links model) relationship of
        None \<Rightarrow> JNull
      | Some [] \<Rightarrow> JUndefined
      | Some (u # _) \<Rightarrow> JStr u)"

section \<open>The Hub controller\<close>

text \<open>
  The methods of the class Hub, in the order of their dependencies. A method that is
  \<^verbatim>\<open>async\<close> yields a settled promise; \<^verbatim>\<open>get\<close>, \<^verbatim>\<open>post\<close> and
  \<^verbatim>\<open>getRelation\<close> are not, so they yield a completion of a promise. Every method
  that can reach the network also yields its trace of effects. The console output
  under \<^verbatim>\<open>DEBUG_AJAX\<close> changes no result and is left out, and so is
  \<^verbatim>\<open>phoneHome\<close> with its two fetches, whose builder and client are
  collaborators outside this file.
\<close>

subsection \<open>Transport\<close>

definition getOrigin :: "env \<Rightarrow> string" where
  "getOrigin e = (case hubOrigin e of None \<Rightarrow> [] | Some s \<Rightarrow> s)"

text \<open>
  \<^verbatim>\<open>getRequestUrl(baseUrl, queryMap = {})\<close>. The query map is the list of its
  entries as \<^verbatim>\<open>Object.keys\<close> enumerates them (insertion order for keys that are
  not integers); a value is converted to a string when it is appended. A base that is
  not a string has no \<^verbatim>\<open>startsWith\<close> to call.
\<close>

definition getRequestUrl :: "env \<Rightarrow> jsval \<Rightarrow> (string \<times> jsval) list \<Rightarrow> url completion" where
  "getRequestUrl e baseUrl queryMap =
     (case baseUrl of
        JStr b \<Rightarrow>
          (case (if startsWith_slash b
                 then (case URL_new (getOrigin e) of
                         Throws x \<Rightarrow> Throws x
                       | Returns u \<Rightarrow> Returns (set_pathname u b))
                 else URL_new b) of
             Throws x \<Rightarrow> Throws x
           | Returns u \<Rightarrow>
               Returns (fold (\<lambda>(k, v) u'. searchParams_append u' k (ToString v)) queryMap u))
      | _ \<Rightarrow> Throws TypeError)"

text \<open>\<^verbatim>\<open>async fetch(url, _opts)\<close>: one call of the fetch primitive
  (\<open>fetch_request\<close> is what it is called with: the URL as a string, the options
  over the default \<^verbatim>\<open>credentials: 'include'\<close>), the body decoded with a
  rejection of the decoding turned into null, then the status.\<close>

definition fetch_request :: "url \<Rightarrow> fetch_opts \<Rightarrow> request" where
  "fetch_request u opts0 =
     \<lparr>req_url = href u,
      req_opts = assign_opts (no_opts\<lparr>opt_credentials := Some ''include''\<rparr>) opts0\<rparr>"

definition Hub_fetch :: "env \<Rightarrow> url \<Rightarrow> fetch_opts \<Rightarrow> jsval promise \<times> event list" where
  "Hub_fetch e u opts0 =
     (let req = fetch_request u opts0
      in (case global_fetch e req of
            NetRejects x \<Rightarrow> Rejected x
          | NetResponds r \<Rightarrow>
              (let body = (case resp_json r of None \<Rightarrow> JNull | Some b \<Rightarrow> b)
               in if \<not> resp_ok r
                  then (case get_prop body ''errorMessage'' of
                          Throws x \<Rightarrow> Rejected x
                        | Returns m \<Rightarrow> Rejected (Error m))
                  else Resolved body),
          [FetchCall req]))"

definition Hub_get ::
    "env \<Rightarrow> jsval \<Rightarrow> (string \<times> jsval) list \<Rightarrow> fetch_opts \<Rightarrow> jsval promise completion \<times> event list" where
  "Hub_get e baseUrl queryMap fetchOpts =
     (case getRequestUrl e baseUrl queryMap of
        Throws x \<Rightarrow> (Throws x, [])
      | Returns u \<Rightarrow>
          (let (p, t) = Hub_fetch e u (assign_opts (no_opts\<lparr>opt_method := Some ''GET''\<rparr>) fetchOpts)
           in (Returns p, t)))"

definition Hub_post ::
    "env \<Rightarrow> jsval \<Rightarrow> (string \<times> jsval) list \<Rightarrow> fetch_opts \<Rightarrow> jsval promise completion \<times> event list" where
  "Hub_post e baseUrl queryMap fetchOpts =
     (case getRequestUrl e baseUrl queryMap of
        Throws x \<Rightarrow> (Throws x, [])
      | Returns u \<Rightarrow>
          (let (p, t) = Hub_fetch e u (assign_opts (no_opts\<lparr>opt_method := Some ''POST''\<rparr>) fetchOpts)
           in (Returns p, t)))"

subsection \<open>Session\<close>

text \<open>
  \<^verbatim>\<open>async login({ username, password })\<close>. The parameter is destructured first,
  then the origin is checked, then the permission is awaited (a failure of it rejects
  the login), then the body is built and posted.
\<close>

definition login :: "env \<Rightarrow> jsval \<Rightarrow> jsval promise \<times> event list" where
  "login e creds =
     (case get_prop creds ''username'' of
        Throws x \<Rightarrow> (Rejected x, [])
      | Returns username \<Rightarrow>
     (case get_prop creds ''password'' of
        Throws x \<Rightarrow> (Rejected x, [])
      | Returns password \<Rightarrow>
          (let origin = getOrigin e
           in if origin = [] then (Rejected (Error (JStr ''No Hub origin saved'')), [])
              else (case Permissions_requestUrl e origin of
                      Some x \<Rightarrow> (Rejected x, [PermissionRequest origin])
                    | None \<Rightarrow>
                        (let (r, t) =
                           Hub_post e (JStr ''/j_spring_security_check'') []
                             (no_opts\<lparr>
                                opt_headers := Some [(''Content-type'',
                                  ''application/x-www-form-urlencoded; charset=UTF-8'')],
                                opt_body := Some (''j_username='' @ ToString username
                                  @ ''&j_password='' @ ToString password)\<rparr>)
                         in (await r, PermissionRequest origin # t))))))"

definition logout :: "env \<Rightarrow> jsval promise completion \<times> event list" where
  "logout e = Hub_get e (JStr ''/j_spring_security_logout'') [] no_opts"

definition getCurrentUser :: "env \<Rightarrow> jsval promise completion \<times> event list" where
  "getCurrentUser e =
     (case Hub_get e (JStr ''/api/v1/currentuser'') [] no_opts of
        (Throws x, t) \<Rightarrow> (Throws x, t)
      | (Returns p, t) \<Rightarrow> (Returns (catch_null p), t))"

definition isConnected :: "env \<Rightarrow> bool promise \<times> event list" where
  "isConnected e =
     (let (r, t) = getCurrentUser e
      in (case await r of
            Rejected x \<Rightarrow> Rejected x
          | Resolved response \<Rightarrow> Resolved (truthy response),
          t))"

subsection \<open>Relations\<close>

text \<open>\<^verbatim>\<open>getRelation(model, relationship)\<close>: not async, so a throw of
  \<^verbatim>\<open>this.get\<close> leaves it before \<^verbatim>\<open>.catch\<close> is reached.\<close>

definition getRelation :: "env \<Rightarrow> resource \<Rightarrow> string \<Rightarrow> jsval promise completion \<times> event list" where
  "getRelation e model relationship =
     (let relationUrl = getFirstLink model relationship
      in (case Hub_get e relationUrl [(''limit'', JNum 10000)] no_opts of
            (Throws x, t) \<Rightarrow> (Throws x, t)
          | (Returns p, t) \<Rightarrow> (Returns (catch_null p), t)))"

definition getListRelation :: "env \<Rightarrow> resource \<Rightarrow> string \<Rightarrow> jsval promise \<times> event list" where
  "getListRelation e model relationship =
     (let (r, t) = getRelation e model relationship
      in (case await r of
            Rejected x \<Rightarrow> Rejected x
          | Resolved response \<Rightarrow>
              if truthy response
              then (case get_prop response ''items'' of
                      Throws x \<Rightarrow> Rejected x
                    | Returns items \<Rightarrow> Resolved items)
              else Resolved (JArr []),
          t))"

definition getComponentRiskProfile :: "env \<Rightarrow> resource \<Rightarrow> jsval promise completion \<times> event list" where
  "getComponentRiskProfile e componentVersion = getRelation e componentVersion ''risk-profile''"

definition getComponentPolicyViolations :: "env \<Rightarrow> resource \<Rightarrow> jsval promise \<times> event list" where
  "getComponentPolicyViolations e bomComponent = getListRelation e bomComponent ''policy-rules''"

definition getProjectVersionComponents :: "env \<Rightarrow> resource \<Rightarrow> jsval promise \<times> event list" where
  "getProjectVersionComponents e projectVersion = getListRelation e projectVersion ''components''"

definition getComponentVersionReferences :: "env \<Rightarrow> resource \<Rightarrow> jsval promise \<times> event list" where
  "getComponentVersionReferences e componentVersion =
     getListRelation e componentVersion ''references''"

text \<open>\<^verbatim>\<open>getComponentVersion({ version: versionUrl } = {})\<close>, not async: a
  null argument cannot be destructured.\<close>

definition getComponentVersion :: "env \<Rightarrow> jsval \<Rightarrow> jsval promise completion \<times> event list" where
  "getComponentVersion e externalComponent =
     (case get_prop (if externalComponent = JUndefined then JObj [] else externalComponent)
             ''version'' of
        Throws x \<Rightarrow> (Throws x, [])
      | Returns versionUrl \<Rightarrow> Hub_get e versionUrl [] no_opts)"

text \<open>\<^verbatim>\<open>async getExternalComponents({ forgeName, hubExternalId } = {})\<close>: the
  search endpoint with the one parameter \<^verbatim>\<open>q\<close>.\<close>

definition getExternalComponents :: "env \<Rightarrow> jsval \<Rightarrow> jsval promise \<times> event list" where
  "getExternalComponents e keys =
     (let ks = (if keys = JUndefined then JObj [] else keys)
      in (case get_prop ks ''forgeName'' of
            Throws x \<Rightarrow> (Rejected x, [])
          | Returns forgeName \<Rightarrow>
         (case get_prop ks ''hubExternalId'' of
            Throws x \<Rightarrow> (Rejected x, [])
          | Returns hubExternalId \<Rightarrow>
              (case Hub_get e (JStr ''/api/components'')
                      [(''q'', JStr (ToString forgeName @ '':'' @ ToString hubExternalId))] no_opts of
                 (Throws x, t) \<Rightarrow> (Rejected x, t)
               | (Returns p, t) \<Rightarrow>
                   (case catch_null p of
                      Rejected x \<Rightarrow> (Rejected x, t)
                    | Resolved response \<Rightarrow>
                        if truthy response
                        then (case get_prop response ''items'' of
                                Throws x \<Rightarrow> (Rejected x, t)
                              | Returns items \<Rightarrow> (Resolved items, t))
                        else (Resolved (JArr []), t))))))"

subsection \<open>Array methods and Promise.all\<close>

text \<open>\<^verbatim>\<open>xs.map(f)\<close> and \<^verbatim>\<open>xs.filter(f)\<close> with a callback that may throw:
  the first throw ends the call.\<close>

fun mapC :: "('a \<Rightarrow> 'b completion) \<Rightarrow> 'a list \<Rightarrow> 'b list completion" where
  "mapC f [] = Returns []"
| "mapC f (x # xs) =
     (case f x of
        Throws e \<Rightarrow> Throws e
      | Returns y \<Rightarrow> (case mapC f xs of Throws e \<Rightarrow> Throws e | Returns ys \<Rightarrow> Returns (y # ys)))"

fun filterC :: "('a \<Rightarrow> bool completion) \<Rightarrow> 'a list \<Rightarrow> 'a list completion" where
  "filterC f [] = Returns []"
| "filterC f (x # xs) =
     (case f x of
        Throws e \<Rightarrow> Throws e
      | Returns b \<Rightarrow>
          (case filterC f xs of
             Throws e \<Rightarrow> Throws e
           | Returns ys \<Rightarrow> Returns (if b then x # ys else ys)))"

text \<open>
  \<^verbatim>\<open>Promise.all(ps)\<close> on settled promises: the values in the order of \<open>ps\<close>
  when all are resolved, a rejection otherwise. Which rejection wins is a matter of
  timing; the model takes the one at the lowest index. The promises hub.js hands to
  \<^verbatim>\<open>Promise.all\<close> reject with a TypeError only (lemmas
  \<open>getReferenceProjectVersion_rejects\<close> and \<open>matchingComponents_rejects\<close>), so
  the choice shows in no result.
\<close>

fun Promise_all :: "'a promise list \<Rightarrow> 'a list promise" where
  "Promise_all [] = Resolved []"
| "Promise_all (Rejected e # ps) = Rejected e"
| "Promise_all (Resolved v # ps) =
     (case Promise_all ps of Rejected e \<Rightarrow> Rejected e | Resolved vs \<Rightarrow> Resolved (v # vs))"

subsection \<open>Graph traversal\<close>

text \<open>
  \<^verbatim>\<open>async getReferenceProjectVersion({ projectName, projectVersionUrl } = {})\<close>:
  an undefined reference takes the default, a null one cannot be destructured. A throw
  of \<^verbatim>\<open>this.get\<close> comes before \<^verbatim>\<open>.catch\<close> and rejects the call.
\<close>

definition getReferenceProjectVersion :: "env \<Rightarrow> jsval \<Rightarrow> jsval promise \<times> event list" where
  "getReferenceProjectVersion e reference =
     (let ref = (if reference = JUndefined then JObj [] else reference)
      in (case get_prop ref ''projectName'' of
            Throws x \<Rightarrow> (Rejected x, [])
          | Returns projectName \<Rightarrow>
         (case get_prop ref ''projectVersionUrl'' of
            Throws x \<Rightarrow> (Rejected x, [])
          | Returns projectVersionUrl \<Rightarrow>
              (case Hub_get e projectVersionUrl [] no_opts of
                 (Throws x, t) \<Rightarrow> (Rejected x, t)
               | (Returns p, t) \<Rightarrow>
                   (case catch_null p of
                      Rejected x \<Rightarrow> (Rejected x, t)
                    | Resolved projectVersion \<Rightarrow>
                        if truthy projectVersion
                        then (case set_prop projectVersion ''projectName'' projectName of
                                Throws x \<Rightarrow> (Rejected x, t)
                              | Returns decorated \<Rightarrow> (Resolved decorated, t))
                        else (Resolved projectVersion, t))))))"

text \<open>\<^verbatim>\<open>async getComponentVersionReferenceProjects(componentVersion)\<close>: the
  callbacks of \<^verbatim>\<open>map\<close> run one after the other, each up to its call of the fetch
  primitive, so the requests are issued in the order of the references.\<close>

definition getComponentVersionReferenceProjects ::
    "env \<Rightarrow> resource \<Rightarrow> jsval promise \<times> event list" where
  "getComponentVersionReferenceProjects e componentVersion =
     (case getComponentVersionReferences e componentVersion of
        (Rejected x, t) \<Rightarrow> (Rejected x, t)
      | (Resolved references, t) \<Rightarrow>
          (case as_array references of
             None \<Rightarrow> (Rejected TypeError, t)
           | Some refs \<Rightarrow>
               (let rs = map (getReferenceProjectVersion e) refs
                in (case Promise_all (map fst rs) of
                      Rejected x \<Rightarrow> Rejected x
                    | Resolved vs \<Rightarrow> Resolved (JArr vs),
                    t @ concat (map snd rs)))))"

text \<open>The callback of \<^verbatim>\<open>projectVersions.map\<close> in
  \<^verbatim>\<open>getMatchingBOMComponents\<close>: the BOM of one project version, filtered by
  \<^verbatim>\<open>componentVersion === version\<close>.\<close>

definition matchingComponents :: "env \<Rightarrow> jsval \<Rightarrow> resource \<Rightarrow> jsval list promise \<times> event list" where
  "matchingComponents e version projectVersion =
     (case getProjectVersionComponents e projectVersion of
        (Rejected x, t) \<Rightarrow> (Rejected x, t)
      | (Resolved bomComponents, t) \<Rightarrow>
          (case as_array bomComponents of
             None \<Rightarrow> (Rejected TypeError, t)
           | Some cs \<Rightarrow>
               (case filterC (\<lambda>c. case get_prop c ''componentVersion'' of
                                     Throws x \<Rightarrow> Throws x
                                   | Returns componentVersion \<Rightarrow>
                                       Returns (strict_equals componentVersion version)) cs of
                  Throws x \<Rightarrow> (Rejected x, t)
                | Returns ms \<Rightarrow> (Resolved ms, t))))"

text \<open>\<^verbatim>\<open>async getMatchingBOMComponents({ version }, projectVersions)\<close>, the second
  argument an array of resources as the comment above the method has it.\<close>

definition getMatchingBOMComponents ::
    "env \<Rightarrow> jsval \<Rightarrow> resource list \<Rightarrow> jsval promise \<times> event list" where
  "getMatchingBOMComponents e externalComponent projectVersions =
     (case get_prop externalComponent ''version'' of
        Throws x \<Rightarrow> (Rejected x, [])
      | Returns version \<Rightarrow>
          (let rs = map (matchingComponents e version) projectVersions
           in (case Promise_all (map fst rs) of
                 Rejected x \<Rightarrow> Rejected x
               | Resolved componentArrays \<Rightarrow> Resolved (JArr (concat componentArrays)),
               concat (map snd rs))))"

text \<open>The callback of \<^verbatim>\<open>vulnerabilities.map\<close> in
  \<^verbatim>\<open>getComponentVulnerabilities\<close>.\<close>

definition withDetailsUrl :: "env \<Rightarrow> jsval \<Rightarrow> jsval completion" where
  "withDetailsUrl e vulnerability =
     (case get_prop vulnerability ''source'' of
        Throws x \<Rightarrow> Throws x
      | Returns source \<Rightarrow>
          (case get_prop vulnerability ''vulnerabilityName'' of
             Throws x \<Rightarrow> Throws x
           | Returns vulnerabilityName \<Rightarrow>
               Object_assign1 vulnerability ''detailsUrl''
                 (JStr (if strict_equals source (JStr ''NVD'')
                        then ''https://web.nvd.nist.gov/view/vuln/search-results?query=''
                             @ ToString vulnerabilityName @ ''&search_type=all&cves=on''
                        else if strict_equals source (JStr ''VULNDB'')
                        then getOrigin e @ ''/#vulnerabilities/id:''
                             @ ToString vulnerabilityName @ ''/view:overview''
                        else []))))"

definition getComponentVulnerabilities :: "env \<Rightarrow> resource \<Rightarrow> jsval promise \<times> event list" where
  "getComponentVulnerabilities e componentVersion =
     (case getListRelation e componentVersion ''vulnerabilities'' of
        (Rejected x, t) \<Rightarrow> (Rejected x, t)
      | (Resolved vulnerabilities, t) \<Rightarrow>
          (case as_array vulnerabilities of
             None \<Rightarrow> (Rejected TypeError, t)
           | Some vs \<Rightarrow>
               (case mapC (withDetailsUrl e) vs of
                  Throws x \<Rightarrow> (Rejected x, t)
                | Returns ws \<Rightarrow> (Resolved (JArr ws), t))))"

section \<open>Notions and example data of the claims\<close>

text \<open>A call of the fetch primitive fails when its promise rejects or its response
  signals an HTTP failure (\<^verbatim>\<open>response.ok\<close> is false).\<close>

definition fetch_fails :: "net_outcome \<Rightarrow> bool" where
  "fetch_fails out = (case out of NetRejects x \<Rightarrow> True | NetResponds r \<Rightarrow> \<not> resp_ok r)"

text \<open>The options \<^verbatim>\<open>get\<close> passes on when the caller gives no \<^verbatim>\<open>fetchOpts\<close>.\<close>

definition get_opts :: fetch_opts where
  "get_opts = assign_opts (no_opts\<lparr>opt_method := Some ''GET''\<rparr>) no_opts"

definition hub_example :: string where
  "hub_example = ''https://hub.example.com''"

text \<open>A network that is down, one that answers every request with an HTTP failure and
  an error message, and one that answers every request with the JSON text
  \<^verbatim>\<open>false\<close>.\<close>

definition env_down :: env where
  "env_down = \<lparr>hubOrigin = Some hub_example, Permissions_requestUrl = (\<lambda>origin. None),
     global_fetch = (\<lambda>req. NetRejects TypeError)\<rparr>"

definition env_failing :: env where
  "env_failing = \<lparr>hubOrigin = Some hub_example, Permissions_requestUrl = (\<lambda>origin. None),
     global_fetch = (\<lambda>req. NetResponds
       \<lparr>resp_ok = False, resp_json = Some (JObj [(''errorMessage'', JStr ''Not found'')])\<rparr>)\<rparr>"

definition env_false :: env where
  "env_false = \<lparr>hubOrigin = Some hub_example, Permissions_requestUrl = (\<lambda>origin. None),
     global_fetch = (\<lambda>req. NetResponds \<lparr>resp_ok = True, resp_json = Some (JBool False)\<rparr>)\<rparr>"

text \<open>A project version with one link of its own.\<close>

definition project_version_1 :: resource where
  "project_version_1 =
     \<lparr>res_fields = [(''versionName'', JStr ''1.0'')],
      res_links = [(''components'', [''https://hub.example.com/api/projects/1/versions/1/components''])]\<rparr>"

text \<open>A network that answers every request with a page of two BOM entries.\<close>

definition env_paged :: env where
  "env_paged = \<lparr>hubOrigin = Some hub_example, Permissions_requestUrl = (\<lambda>origin. None),
     global_fetch = (\<lambda>req. NetResponds \<lparr>resp_ok = True,
       resp_json = Some (JObj [(''totalCount'', JNum 2),
         (''items'', JArr [JObj [(''componentVersion'', JStr ''V1'')],
                           JObj [(''componentVersion'', JStr ''V2'')]])])\<rparr>)\<rparr>"


text \<open>A response whose body is not JSON, with a status that signals failure.\<close>

definition env_undecodable :: env where
  "env_undecodable = \<lparr>hubOrigin = Some hub_example, Permissions_requestUrl = (\<lambda>origin. None),
     global_fetch = (\<lambda>req. NetResponds \<lparr>resp_ok = False, resp_json = None\<rparr>)\<rparr>"

definition url_1 :: url where
  "url_1 = \<lparr>url_protocol = ''https:'', url_host = ''hub.example.com'',
       url_pathname = ''/api/v1/currentuser'', url_query = None, url_fragment = None\<rparr>"

text \<open>The options \<^verbatim>\<open>login\<close> posts with, for a body \<open>b\<close>.\<close>

definition login_opts :: "string \<Rightarrow> fetch_opts" where
  "login_opts b =
     \<lparr>opt_credentials = Some ''include'', opt_method = Some ''POST'',
      opt_headers = Some [(''Content-type'', ''application/x-www-form-urlencoded; charset=UTF-8'')],
      opt_body = Some b\<rparr>"



text \<open>
  The application/x-www-form-urlencoded parser, which reads a body of the content type
  \<^verbatim>\<open>login\<close> declares: the body is split at every \<^verbatim>\<open>&\<close>, empty pieces are
  skipped, a piece is split at its first \<^verbatim>\<open>=\<close> into name and value (the value
  empty when there is none), and in both every \<^verbatim>\<open>+\<close> becomes a space and every
  \<^verbatim>\<open>%\<close> followed by two hexadecimal digits the byte they write.
\<close>

fun split_on :: "char \<Rightarrow> string \<Rightarrow> string list" where
  "split_on c [] = [[]]"
| "split_on c (x # xs) =
     (if x = c then [] # split_on c xs
      else (case split_on c xs of [] \<Rightarrow> [[x]] | s # ss \<Rightarrow> (x # s) # ss))"

definition is_hex :: "char \<Rightarrow> bool" where
  "is_hex c =
     (let n = (of_char c :: nat)
      in (48 \<le> n \<and> n \<le> 57) \<or> (65 \<le> n \<and> n \<le> 70) \<or> (97 \<le> n \<and> n \<le> 102))"

definition hex_value :: "char \<Rightarrow> nat" where
  "hex_value c =
     (let n = (of_char c :: nat)
      in if n \<le> 57 then n - 48 else if n \<le> 70 then n - 55 else n - 87)"

fun percent_decode :: "string \<Rightarrow> string" where
  "percent_decode [] = []"
| "percent_decode [c] = [c]"
| "percent_decode [c, a] = [c, a]"
| "percent_decode (c # a # b # s) =
     (if c = CHR ''%'' \<and> is_hex a \<and> is_hex b
      then char_of (16 * hex_value a + hex_value b) # percent_decode s
      else c # percent_decode (a # b # s))"

definition form_decode :: "string \<Rightarrow> string" where
  "form_decode s = percent_decode (map (\<lambda>c. if c = CHR ''+'' then CHR '' '' else c) s)"

definition parse_pair :: "string \<Rightarrow> string \<times> string" where
  "parse_pair piece =
     (form_decode (takeWhile (\<lambda>c. c \<noteq> CHR ''='') piece),
      form_decode (drop 1 (dropWhile (\<lambda>c. c \<noteq> CHR ''='') piece)))"

definition parse_form :: "string \<Rightarrow> (string \<times> string) list" where
  "parse_form body = map parse_pair (filter (\<lambda>piece. piece \<noteq> []) (split_on CHR ''&'' body))"

text \<open>Credentials whose password holds \<^verbatim>\<open>=\<close> and no \<^verbatim>\<open>&\<close>.\<close>

definition credentials_2 :: jsval where
  "credentials_2 = JObj [(''username'', JStr ''sysadmin''), (''password'', JStr ''b=c'')]"

text \<open>A response with a failure status whose body is the JSON text \<^verbatim>\<open>null\<close>.\<close>

definition env_null_body :: env where
  "env_null_body = \<lparr>hubOrigin = Some hub_example, Permissions_requestUrl = (\<lambda>origin. None),
     global_fetch = (\<lambda>req. NetResponds \<lparr>resp_ok = False, resp_json = Some JNull\<rparr>)\<rparr>"



definition env_login :: env where
  "env_login = \<lparr>hubOrigin = Some hub_example, Permissions_requestUrl = (\<lambda>origin. None),
     global_fetch = (\<lambda>req. NetResponds \<lparr>resp_ok = True, resp_json = None\<rparr>)\<rparr>"

definition credentials_1 :: jsval where
  "credentials_1 = JObj [(''username'', JStr ''sysadmin''), (''password'', JStr ''a&b=c'')]"

text \<open>A component version with a \<^verbatim>\<open>vulnerabilities\<close> link and a
  \<^verbatim>\<open>references\<close> link, and a network that answers with three vulnerabilities.\<close>

definition component_version_1 :: resource where
  "component_version_1 =
     \<lparr>res_fields = [(''versionName'', JStr ''2.4'')],
      res_links = [(''vulnerabilities'', [''https://hub.example.com/api/components/7/versions/9/vulnerabilities'']),
                   (''references'', [''https://hub.example.com/api/components/7/versions/9/references''])]\<rparr>"

definition vulnerability_nvd :: jsval where
  "vulnerability_nvd = JObj [(''source'', JStr ''NVD''), (''vulnerabilityName'', JStr ''CVE-2020-1'')]"

definition vulnerability_vulndb :: jsval where
  "vulnerability_vulndb = JObj [(''source'', JStr ''VULNDB''), (''vulnerabilityName'', JStr ''CVE-2020-1'')]"

definition vulnerability_other :: jsval where
  "vulnerability_other = JObj [(''source'', JStr ''OTHER''), (''vulnerabilityName'', JStr ''CVE-2020-1'')]"

definition env_vulnerabilities :: env where
  "env_vulnerabilities = \<lparr>hubOrigin = Some hub_example, Permissions_requestUrl = (\<lambda>origin. None),
     global_fetch = (\<lambda>req. NetResponds \<lparr>resp_ok = True,
       resp_json = Some (JObj [(''items'',
         JArr [vulnerability_nvd, vulnerability_vulndb, vulnerability_other])])\<rparr>)\<rparr>"

text \<open>
  The rule of claim C7 in the spec's words: the NVD search URL with the vulnerability
  name for the source \<^verbatim>\<open>NVD\<close>, a path on the origin for \<^verbatim>\<open>VULNDB\<close>,
  the empty string for any other source.
\<close>

definition detailsUrl_by_source :: "string \<Rightarrow> jsval \<Rightarrow> string \<Rightarrow> string" where
  "detailsUrl_by_source origin source name =
     (if source = JStr ''NVD''
      then ''https://web.nvd.nist.gov/view/vuln/search-results?query='' @ name @ ''&search_type=all&cves=on''
      else if source = JStr ''VULNDB''
      then origin @ ''/#vulnerabilities/id:'' @ name @ ''/view:overview''
      else [])"

text \<open>The value of the field \<open>k\<close> of an object with the properties \<open>ps\<close>.\<close>

definition field :: "(string \<times> jsval) list \<Rightarrow> string \<Rightarrow> jsval" where
  "field ps k = (case map_of ps k of None \<Rightarrow> JUndefined | Some x \<Rightarrow> x)"

text \<open>A second project version, and a network that answers the
  \<^verbatim>\<open>components\<close> link of the first with two BOM entries (component versions
  \<^verbatim>\<open>V1\<close> and \<^verbatim>\<open>V2\<close>) and any other request with one entry (\<^verbatim>\<open>V1\<close>).\<close>

definition project_version_2 :: resource where
  "project_version_2 =
     \<lparr>res_fields = [(''versionName'', JStr ''2.0'')],
      res_links = [(''components'', [''https://hub.example.com/api/projects/2/versions/5/components''])]\<rparr>"

definition bom_1 :: "(string \<times> jsval) list list" where
  "bom_1 = [[(''componentName'', JStr ''a''), (''componentVersion'', JStr ''V1'')],
            [(''componentName'', JStr ''b''), (''componentVersion'', JStr ''V2'')]]"

definition bom_2 :: "(string \<times> jsval) list list" where
  "bom_2 = [[(''componentName'', JStr ''c''), (''componentVersion'', JStr ''V1'')]]"

definition env_boms :: env where
  "env_boms = \<lparr>hubOrigin = Some hub_example, Permissions_requestUrl = (\<lambda>origin. None),
     global_fetch = (\<lambda>req. NetResponds \<lparr>resp_ok = True,
       resp_json = Some (JObj [(''items'', JArr (map JObj
         (if req_url req = ''https://hub.example.com/api/projects/1/versions/1/components?limit=10000''
          then bom_1 else bom_2)))])\<rparr>)\<rparr>"

text \<open>Two references of \<open>component_version_1\<close>, and a network that lists them for
  the \<^verbatim>\<open>references\<close> link, answers the project version of the first and is down
  for every other request.\<close>

definition reference_1 :: "(string \<times> jsval) list" where
  "reference_1 = [(''projectName'', JStr ''alpha''),
                  (''projectVersionUrl'', JStr ''https://hub.example.com/api/projects/1/versions/1'')]"

definition reference_2 :: "(string \<times> jsval) list" where
  "reference_2 = [(''projectName'', JStr ''beta''),
                  (''projectVersionUrl'', JStr ''https://hub.example.com/api/projects/2/versions/5'')]"

definition env_references :: env where
  "env_references = \<lparr>hubOrigin = Some hub_example, Permissions_requestUrl = (\<lambda>origin. None),
     global_fetch = (\<lambda>req.
       if req_url req = ''https://hub.example.com/api/components/7/versions/9/references?limit=10000''
       then NetResponds \<lparr>resp_ok = True,
              resp_json = Some (JObj [(''items'', JArr [JObj reference_1, JObj reference_2])])\<rparr>
       else if req_url req = ''https://hub.example.com/api/projects/1/versions/1''
       then NetResponds \<lparr>resp_ok = True, resp_json = Some (JObj [(''versionName'', JStr ''1.0'')])\<rparr>
       else NetRejects TypeError)\<rparr>"

section \<open>Properties\<close>

subsection \<open>Auxiliary facts\<close>

lemmas url_eval = getRequestUrl_def URL_new_def ascii_lower_def path_encode_def percent_encode_def
  urlencode_def startsWith_slash_def set_pathname_def searchParams_append_def getOrigin_def
  int_to_string_def nat_to_string.simps Let_def

lemma get_prop_throws: "get_prop v k = Throws x \<Longrightarrow> x = TypeError"
  by (cases v) auto

lemma snd_Hub_fetch: "snd (Hub_fetch e u opts) = [FetchCall (fetch_request u opts)]"
  by (simp add: Hub_fetch_def Let_def)

lemma Hub_get_Returns:
  "getRequestUrl e b q = Returns u \<Longrightarrow>
   Hub_get e b q no_opts =
     (Returns (fst (Hub_fetch e u get_opts)), [FetchCall (fetch_request u get_opts)])"
  by (simp add: Hub_get_def split_beta snd_Hub_fetch get_opts_def)

lemma Hub_fetch_fails:
  "fetch_fails (global_fetch e (fetch_request u opts)) \<Longrightarrow> \<exists>x. fst (Hub_fetch e u opts) = Rejected x"
  by (auto simp: Hub_fetch_def fetch_fails_def Let_def split: net_outcome.splits completion.splits)

subsection \<open>The relation resolver\<close>

text \<open>
  Claim C1 says that for a relation name absent from the resource's link collection
  \<^verbatim>\<open>getRelation\<close> returns null and issues no network request. On the code the
  second half holds and the first does not: the lookup gives no URL,
  \<^verbatim>\<open>getRequestUrl\<close> throws on \<^verbatim>\<open>baseUrl.startsWith\<close> inside
  \<^verbatim>\<open>this.get\<close>, and since neither \<^verbatim>\<open>get\<close> nor \<^verbatim>\<open>getRelation\<close> is
  async the TypeError leaves \<^verbatim>\<open>getRelation\<close> before \<^verbatim>\<open>.catch(() => null)\<close>
  is attached. Here: a project version that has a \<^verbatim>\<open>components\<close> link only, asked
  for its \<^verbatim>\<open>vulnerabilities\<close>.
\<close>

theorem getRelation_absent_relation_throws:
  "getRelation e project_version_1 ''vulnerabilities'' = (Throws TypeError, [])"
  by (simp add: getRelation_def getFirstLink_def Hub_get_def getRequestUrl_def project_version_1_def)

text \<open>
  Claim C2: when the relation is present and the fetch of its URL fails (the promise of
  the fetch primitive rejects, or the response signals an HTTP failure),
  \<^verbatim>\<open>getRelation\<close> returns a promise that resolves to null: it neither throws nor
  rejects. The fetch is the one call of the fetch primitive on the relation's first
  URL with \<^verbatim>\<open>limit=10000\<close> appended.
\<close>

theorem getRelation_fetch_failure_gives_null:
  assumes present: "map_of (res_links R) N = Some (link # others)"
      and url: "getRequestUrl e (JStr link) [(''limit'', JNum 10000)] = Returns u"
      and fails: "fetch_fails (global_fetch e (fetch_request u get_opts))"
  shows "getRelation e R N = (Returns (Resolved JNull), [FetchCall (fetch_request u get_opts)])"
proof -
  have link: "getFirstLink R N = JStr link"
    using present by (simp add: getFirstLink_def)
  obtain x where "fst (Hub_fetch e u get_opts) = Rejected x"
    using Hub_fetch_fails[OF fails] by blast
  then show ?thesis
    by (simp add: getRelation_def link Hub_get_Returns[OF url])
qed

lemma components_url:
  "getRequestUrl \<lparr>hubOrigin = Some hub_example, Permissions_requestUrl = p, global_fetch = f\<rparr>
     (JStr ''https://hub.example.com/api/projects/1/versions/1/components'') [(''limit'', JNum 10000)]
   = Returns \<lparr>url_protocol = ''https:'', url_host = ''hub.example.com'',
       url_pathname = ''/api/projects/1/versions/1/components'',
       url_query = Some ''limit=10000'', url_fragment = None\<rparr>"
  by (simp add: url_eval hub_example_def)

theorem getRelation_fetch_failure_gives_null_witness:
  "getRelation env_down project_version_1 ''components'' =
     (Returns (Resolved JNull),
      [FetchCall \<lparr>req_url = ''https://hub.example.com/api/projects/1/versions/1/components?limit=10000'',
         req_opts = \<lparr>opt_credentials = Some ''include'', opt_method = Some ''GET'',
           opt_headers = None, opt_body = None\<rparr>\<rparr>])
   \<and> getRelation env_failing project_version_1 ''components'' =
     (Returns (Resolved JNull),
      [FetchCall \<lparr>req_url = ''https://hub.example.com/api/projects/1/versions/1/components?limit=10000'',
         req_opts = \<lparr>opt_credentials = Some ''include'', opt_method = Some ''GET'',
           opt_headers = None, opt_body = None\<rparr>\<rparr>])"
proof -
  let ?u = "\<lparr>url_protocol = ''https:'', url_host = ''hub.example.com'',
       url_pathname = ''/api/projects/1/versions/1/components'',
       url_query = Some ''limit=10000'', url_fragment = None\<rparr>"
  have present: "map_of (res_links project_version_1) ''components'' =
      Some (''https://hub.example.com/api/projects/1/versions/1/components'' # [])"
    by (simp add: project_version_1_def)
  have req: "fetch_request ?u get_opts =
      \<lparr>req_url = ''https://hub.example.com/api/projects/1/versions/1/components?limit=10000'',
         req_opts = \<lparr>opt_credentials = Some ''include'', opt_method = Some ''GET'',
           opt_headers = None, opt_body = None\<rparr>\<rparr>"
    by (simp add: fetch_request_def get_opts_def assign_opts_def no_opts_def orElse_def href_def)
  have down: "fetch_fails (global_fetch env_down (fetch_request ?u get_opts))"
    by (simp add: fetch_fails_def env_down_def)
  have failing: "fetch_fails (global_fetch env_failing (fetch_request ?u get_opts))"
    by (simp add: fetch_fails_def env_failing_def)
  show ?thesis
    using getRelation_fetch_failure_gives_null[OF present _ down]
          getRelation_fetch_failure_gives_null[OF present _ failing]
    by (simp add: components_url env_down_def env_failing_def req)
qed

lemma set_prop_throws: "set_prop v k y = Throws x \<Longrightarrow> x = TypeError"
  by (cases v) auto

lemma URL_new_throws: "URL_new s = Throws x \<Longrightarrow> x = TypeError"
  by (auto simp: URL_new_def Let_def split: if_splits)

lemma getRequestUrl_throws: "getRequestUrl e b q = Throws x \<Longrightarrow> x = TypeError"
  by (auto simp: getRequestUrl_def split: jsval.splits completion.splits if_splits dest: URL_new_throws)

lemma Hub_get_Throws: "getRequestUrl e b q = Throws x \<Longrightarrow> Hub_get e b q opts = (Throws x, [])"
  by (simp add: Hub_get_def)

text \<open>Whatever the base is, \<^verbatim>\<open>get\<close> either throws before any request or
  makes exactly one call of the fetch primitive.\<close>

lemma Hub_get_throws_or_fetches:
  "Hub_get e b q no_opts = (Throws TypeError, []) \<or>
   (\<exists>p r. Hub_get e b q no_opts = (Returns p, [FetchCall r]))"
proof (cases "getRequestUrl e b q")
  case (Returns u)
  then show ?thesis by (simp add: Hub_get_Returns)
next
  case (Throws x)
  then show ?thesis
    using getRequestUrl_throws[OF Throws] by (simp add: Hub_get_Throws)
qed

lemma getRelation_absent:
  "map_of (res_links R) N = None \<Longrightarrow> getRelation e R N = (Throws TypeError, [])"
  by (simp add: getRelation_def getFirstLink_def Hub_get_def getRequestUrl_def)

lemma getListRelation_absent:
  "map_of (res_links R) N = None \<Longrightarrow> getListRelation e R N = (Rejected TypeError, [])"
  by (simp add: getListRelation_def getRelation_absent)

lemma getRelation_throws_or_fetches:
  "getRelation e R N = (Throws TypeError, []) \<or>
   (\<exists>v r. getRelation e R N = (Returns (Resolved v), [FetchCall r]))"
proof (cases "getRequestUrl e (getFirstLink R N) [(''limit'', JNum 10000)]")
  case (Returns u)
  show ?thesis
    by (cases "fst (Hub_fetch e u get_opts)") (simp_all add: getRelation_def Hub_get_Returns[OF Returns])
next
  case (Throws x)
  then show ?thesis
    using getRequestUrl_throws[OF Throws] by (simp add: getRelation_def Hub_get_Throws)
qed

lemma truthy_get_prop: "truthy v \<Longrightarrow> \<exists>x. get_prop v k = Returns x"
  by (cases v) (auto split: option.splits)

text \<open>
  Claim C3 says that \<^verbatim>\<open>getListRelation\<close> returns the empty sequence exactly when
  \<^verbatim>\<open>getRelation\<close> returns null, and the \<^verbatim>\<open>items\<close> field of the result
  otherwise. The code tests \<^verbatim>\<open>response ? response.items : []\<close>, so every falsy
  result gives the empty sequence. When the server answers the relation with the JSON
  text \<^verbatim>\<open>false\<close>, \<^verbatim>\<open>getRelation\<close> returns \<^verbatim>\<open>false\<close>, which is not
  null, and \<^verbatim>\<open>getListRelation\<close> returns the empty sequence, which is not the
  \<^verbatim>\<open>items\<close> field of \<^verbatim>\<open>false\<close> (that is undefined).
\<close>

theorem getListRelation_falsy_counterexample:
  "getRelation env_false project_version_1 ''components'' =
     (Returns (Resolved (JBool False)),
      [FetchCall \<lparr>req_url = ''https://hub.example.com/api/projects/1/versions/1/components?limit=10000'',
         req_opts = \<lparr>opt_credentials = Some ''include'', opt_method = Some ''GET'',
           opt_headers = None, opt_body = None\<rparr>\<rparr>])
   \<and> JBool False \<noteq> JNull
   \<and> fst (getListRelation env_false project_version_1 ''components'') = Resolved (JArr [])
   \<and> get_prop (JBool False) ''items'' = Returns JUndefined"
  by (simp add: getListRelation_def getRelation_def getFirstLink_def Hub_get_def Hub_fetch_def
      fetch_request_def assign_opts_def no_opts_def orElse_def href_def
      project_version_1_def env_false_def hub_example_def url_eval)

text \<open>
  Claim C3 as amended: when \<^verbatim>\<open>getRelation\<close> returns a result,
  \<^verbatim>\<open>getListRelation\<close> returns the empty sequence if the result is falsy (null,
  and also false, 0 and the empty string), and otherwise the \<^verbatim>\<open>items\<close> field
  of the result as it is (undefined when the result has none); it issues the requests
  of \<^verbatim>\<open>getRelation\<close> and no other.
\<close>

theorem getListRelation_by_truthiness:
  assumes "getRelation e R N = (Returns (Resolved v), t)"
  shows "(\<not> truthy v \<longrightarrow> getListRelation e R N = (Resolved (JArr []), t))
       \<and> (truthy v \<longrightarrow>
            (\<exists>items. get_prop v ''items'' = Returns items
              \<and> getListRelation e R N = (Resolved items, t)))"
proof (cases "truthy v")
  case False
  then show ?thesis using assms by (simp add: getListRelation_def)
next
  case True
  then obtain items where "get_prop v ''items'' = Returns items"
    using truthy_get_prop by blast
  then show ?thesis using assms True by (simp add: getListRelation_def)
qed

lemma getRelation_paged:
  "getRelation env_paged project_version_1 ''components'' =
     (Returns (Resolved (JObj [(''totalCount'', JNum 2),
         (''items'', JArr [JObj [(''componentVersion'', JStr ''V1'')],
                           JObj [(''componentVersion'', JStr ''V2'')]])])),
      [FetchCall \<lparr>req_url = ''https://hub.example.com/api/projects/1/versions/1/components?limit=10000'',
         req_opts = \<lparr>opt_credentials = Some ''include'', opt_method = Some ''GET'',
           opt_headers = None, opt_body = None\<rparr>\<rparr>])"
  by (simp add: getRelation_def getFirstLink_def Hub_get_def Hub_fetch_def
      fetch_request_def assign_opts_def no_opts_def orElse_def href_def
      project_version_1_def env_paged_def hub_example_def url_eval)

lemma getRelation_down:
  "getRelation env_down project_version_1 ''components'' =
     (Returns (Resolved JNull),
      [FetchCall \<lparr>req_url = ''https://hub.example.com/api/projects/1/versions/1/components?limit=10000'',
         req_opts = \<lparr>opt_credentials = Some ''include'', opt_method = Some ''GET'',
           opt_headers = None, opt_body = None\<rparr>\<rparr>])"
  by (simp add: getRelation_def getFirstLink_def Hub_get_def Hub_fetch_def
      fetch_request_def assign_opts_def no_opts_def orElse_def href_def
      project_version_1_def env_down_def hub_example_def url_eval)

theorem getListRelation_by_truthiness_witness:
  "fst (getListRelation env_paged project_version_1 ''components'') =
     Resolved (JArr [JObj [(''componentVersion'', JStr ''V1'')],
                     JObj [(''componentVersion'', JStr ''V2'')]])
   \<and> fst (getListRelation env_down project_version_1 ''components'') = Resolved (JArr [])"
  using getListRelation_by_truthiness[OF getRelation_paged]
        getListRelation_by_truthiness[OF getRelation_down]
  by simp

subsection \<open>The transport\<close>

text \<open>What the transport does with a response: one call of the fetch primitive; a body
  that does not decode is null; with a success status the decoded body is the result,
  with a failure status the result is a rejection, by \<^verbatim>\<open>new Error(m)\<close> for the
  \<^verbatim>\<open>errorMessage\<close> field \<open>m\<close> of a body that has fields to read.\<close>

lemma Hub_fetch_response:
  assumes "global_fetch e (fetch_request u opts) = NetResponds r"
  shows "snd (Hub_fetch e u opts) = [FetchCall (fetch_request u opts)]
       \<and> (resp_ok r \<and> resp_json r = None \<longrightarrow> fst (Hub_fetch e u opts) = Resolved JNull)
       \<and> (\<forall>b. resp_ok r \<and> resp_json r = Some b \<longrightarrow> fst (Hub_fetch e u opts) = Resolved b)
       \<and> (\<forall>b m. \<not> resp_ok r \<and> resp_json r = Some b \<and> get_prop b ''errorMessage'' = Returns m
             \<longrightarrow> fst (Hub_fetch e u opts) = Rejected (Error m))
       \<and> (\<not> resp_ok r \<longrightarrow> (\<exists>x. fst (Hub_fetch e u opts) = Rejected x))"
  using assms
  by (auto simp: Hub_fetch_def Let_def split: completion.splits option.splits)

text \<open>
  Claim C4 says that for a failure status the transport raises an error that carries the
  server's error message, or a decode-failure indicator when the body could not be
  parsed. The first holds and the second does not: for a body that is not JSON the
  decoding gives null, and \<^verbatim>\<open>throw new Error(body.errorMessage)\<close> fails on reading
  \<^verbatim>\<open>errorMessage\<close> of null before any Error is made. What is raised is the
  TypeError of that read, which carries nothing of the response and is the same as for
  a body that decodes to the JSON text \<^verbatim>\<open>null\<close>. Here: a failure status with a body
  that is not JSON, next to one with the JSON text \<^verbatim>\<open>null\<close> and one with an error
  message.
\<close>

theorem Hub_fetch_undecodable_failure:
  "Hub_fetch env_undecodable url_1 get_opts =
     (Rejected TypeError,
      [FetchCall \<lparr>req_url = ''https://hub.example.com/api/v1/currentuser'',
         req_opts = \<lparr>opt_credentials = Some ''include'', opt_method = Some ''GET'',
           opt_headers = None, opt_body = None\<rparr>\<rparr>])
   \<and> fst (Hub_fetch env_null_body url_1 get_opts) = Rejected TypeError
   \<and> fst (Hub_fetch env_failing url_1 get_opts) = Rejected (Error (JStr ''Not found''))"
  by (simp add: Hub_fetch_def env_undecodable_def env_null_body_def env_failing_def
      fetch_request_def get_opts_def assign_opts_def no_opts_def orElse_def href_def url_1_def)






subsection \<open>Login\<close>

lemma Hub_post_Returns:
  "getRequestUrl e b q = Returns u \<Longrightarrow>
   Hub_post e b q opts =
     (Returns (fst (Hub_fetch e u (assign_opts (no_opts\<lparr>opt_method := Some ''POST''\<rparr>) opts))),
      [FetchCall (fetch_request u (assign_opts (no_opts\<lparr>opt_method := Some ''POST''\<rparr>) opts))])"
  by (simp add: Hub_post_def split_beta snd_Hub_fetch)

lemma Hub_post_Throws: "getRequestUrl e b q = Throws x \<Longrightarrow> Hub_post e b q opts = (Throws x, [])"
  by (simp add: Hub_post_def)

lemma login_request:
  "fetch_request u (assign_opts (no_opts\<lparr>opt_method := Some ''POST''\<rparr>)
     (no_opts\<lparr>opt_headers := Some [(''Content-type'', ''application/x-www-form-urlencoded; charset=UTF-8'')],
       opt_body := Some b\<rparr>))
   = \<lparr>req_url = href u, req_opts = login_opts b\<rparr>"
  by (simp add: fetch_request_def assign_opts_def no_opts_def orElse_def login_opts_def)


lemma login_trace:
  assumes "get_prop creds ''username'' = Returns u" and "get_prop creds ''password'' = Returns p"
  shows "snd (login e creds) =
     (if getOrigin e = [] then []
      else PermissionRequest (getOrigin e) #
        (case Permissions_requestUrl e (getOrigin e) of
           Some x \<Rightarrow> []
         | None \<Rightarrow>
             (case getRequestUrl e (JStr ''/j_spring_security_check'') [] of
                Throws x \<Rightarrow> []
              | Returns url \<Rightarrow>
                  [FetchCall \<lparr>req_url = href url,
                     req_opts = login_opts (''j_username='' @ ToString u @ ''&j_password='' @ ToString p)\<rparr>])))"
  using assms
  by (auto simp: login_def Let_def Hub_post_Returns Hub_post_Throws login_request
      split: option.splits completion.splits)




lemma split_on_first: "c \<notin> set a \<Longrightarrow> split_on c (a @ c # b) = a # split_on c b"
  by (induction a) auto

lemma split_on_none: "c \<notin> set a \<Longrightarrow> split_on c a = [a]"
  by (induction a) auto

lemma length_split_on: "length (split_on c s) = Suc (length (filter (\<lambda>x. x = c) s))"
  by (induction s) (auto split: list.splits)

lemma length_percent_decode: "length (percent_decode s) \<le> length s"
  by (induction s rule: percent_decode.induct) auto

lemma length_form_decode: "length (form_decode s) \<le> length s"
  using length_percent_decode[of "map (\<lambda>c. if c = CHR ''+'' then CHR '' '' else c) s"]
  by (simp add: form_decode_def)

lemma percent_decode_plain: "CHR ''%'' \<notin> set s \<Longrightarrow> percent_decode s = s"
  by (induction s rule: percent_decode.induct) auto

lemma form_decode_plain: "CHR ''+'' \<notin> set s \<Longrightarrow> CHR ''%'' \<notin> set s \<Longrightarrow> form_decode s = s"
proof -
  assume a: "CHR ''+'' \<notin> set s" and b: "CHR ''%'' \<notin> set s"
  from a have "map (\<lambda>c. if c = CHR ''+'' then CHR '' '' else c) s = s"
    by (induction s) auto
  with b show ?thesis by (simp add: form_decode_def percent_decode_plain)
qed


lemma takeWhile_until: "c \<notin> set k \<Longrightarrow> takeWhile (\<lambda>x. x \<noteq> c) (k @ c # v) = k"
  by (induction k) auto

lemma dropWhile_until: "c \<notin> set k \<Longrightarrow> dropWhile (\<lambda>x. x \<noteq> c) (k @ c # v) = c # v"
  by (induction k) auto

lemma parse_pair_split:
  "CHR ''='' \<notin> set k \<Longrightarrow> parse_pair (k @ CHR ''='' # v) = (form_decode k, form_decode v)"
  by (simp add: parse_pair_def takeWhile_until dropWhile_until)

lemma parse_form_first:
  "CHR ''&'' \<notin> set a \<Longrightarrow> a \<noteq> [] \<Longrightarrow> parse_form (a @ CHR ''&'' # b) = parse_pair a # parse_form b"
  by (simp add: parse_form_def split_on_first)

lemma parse_form_last:
  "CHR ''&'' \<notin> set a \<Longrightarrow> a \<noteq> [] \<Longrightarrow> parse_form a = [parse_pair a]"
  by (simp add: parse_form_def split_on_none)

lemma form_decode_shorter: "length v < length u \<Longrightarrow> form_decode v \<noteq> u"
  using length_form_decode[of v] by auto

lemma two_fields_intact:
  assumes "CHR ''&'' \<notin> set k1" "CHR ''='' \<notin> set k1" "CHR ''&'' \<notin> set k2" "CHR ''='' \<notin> set k2"
      and "CHR ''&'' \<notin> set u" "CHR ''&'' \<notin> set p"
  shows "parse_form (k1 @ CHR ''='' # u @ CHR ''&'' # k2 @ CHR ''='' # p) =
           [(form_decode k1, form_decode u), (form_decode k2, form_decode p)]"
proof -
  have "parse_form ((k1 @ CHR ''='' # u) @ CHR ''&'' # (k2 @ CHR ''='' # p)) =
      parse_pair (k1 @ CHR ''='' # u) # parse_form (k2 @ CHR ''='' # p)"
    using assms by (intro parse_form_first) auto
  moreover have "parse_form (k2 @ CHR ''='' # p) = [parse_pair (k2 @ CHR ''='' # p)]"
    using assms by (intro parse_form_last) auto
  ultimately show ?thesis
    using assms by (simp add: parse_pair_split)
qed

lemma two_fields_broken:
  assumes "CHR ''&'' \<notin> set k1" "CHR ''='' \<notin> set k1" "CHR ''&'' \<notin> set k2" "CHR ''='' \<notin> set k2"
      and "CHR ''&'' \<in> set u \<or> CHR ''&'' \<in> set p"
  shows "parse_form (k1 @ CHR ''='' # u @ CHR ''&'' # k2 @ CHR ''='' # p) \<noteq> [(n1, u), (n2, p)]"
proof (cases "CHR ''&'' \<in> set u")
  case True
  then obtain u1 u2 where u: "u = u1 @ CHR ''&'' # u2" and u1: "CHR ''&'' \<notin> set u1"
    by (auto dest: split_list_first)
  have "parse_form ((k1 @ CHR ''='' # u1) @ CHR ''&'' # (u2 @ CHR ''&'' # k2 @ CHR ''='' # p)) =
      parse_pair (k1 @ CHR ''='' # u1) # parse_form (u2 @ CHR ''&'' # k2 @ CHR ''='' # p)"
    using assms u1 by (intro parse_form_first) auto
  then have "parse_form (k1 @ CHR ''='' # u @ CHR ''&'' # k2 @ CHR ''='' # p) =
      (form_decode k1, form_decode u1) # parse_form (u2 @ CHR ''&'' # k2 @ CHR ''='' # p)"
    using assms by (simp add: u parse_pair_split)
  moreover have "form_decode u1 \<noteq> u"
    by (rule form_decode_shorter) (simp add: u)
  ultimately show ?thesis by auto
next
  case False
  with assms obtain p1 p2 where p: "p = p1 @ CHR ''&'' # p2" and p1: "CHR ''&'' \<notin> set p1"
    by (auto dest: split_list_first)
  have "parse_form ((k1 @ CHR ''='' # u) @ CHR ''&'' # ((k2 @ CHR ''='' # p1) @ CHR ''&'' # p2)) =
      parse_pair (k1 @ CHR ''='' # u) # parse_form ((k2 @ CHR ''='' # p1) @ CHR ''&'' # p2)"
    using assms False by (intro parse_form_first) auto
  moreover have "parse_form ((k2 @ CHR ''='' # p1) @ CHR ''&'' # p2) =
      parse_pair (k2 @ CHR ''='' # p1) # parse_form p2"
    using assms p1 by (intro parse_form_first) auto
  ultimately have "parse_form (k1 @ CHR ''='' # u @ CHR ''&'' # k2 @ CHR ''='' # p) =
      (form_decode k1, form_decode u) # (form_decode k2, form_decode p1) # parse_form p2"
    using assms by (simp add: p parse_pair_split)
  moreover have "form_decode p1 \<noteq> p"
    by (rule form_decode_shorter) (simp add: p)
  ultimately show ?thesis by auto
qed

lemma login_body_shape:
  "''j_username='' @ u @ ''&j_password='' @ p =
   ''j_username'' @ CHR ''='' # u @ CHR ''&'' # ''j_password'' @ CHR ''='' # p"
  by simp

lemma field_names_plain:
  "CHR ''&'' \<notin> set ''j_username''" "CHR ''='' \<notin> set ''j_username''"
  "CHR ''&'' \<notin> set ''j_password''" "CHR ''='' \<notin> set ''j_password''"
  "form_decode ''j_username'' = ''j_username''" "form_decode ''j_password'' = ''j_password''"
  by (simp_all add: form_decode_def)

text \<open>
  Claim C10 says that a username or password holding \<^verbatim>\<open>&\<close> or \<^verbatim>\<open>=\<close>
  changes the field structure of the form instead of being transmitted as the value of
  its field. For \<^verbatim>\<open>=\<close> this does not hold: with the password \<^verbatim>\<open>b=c\<close> the
  body that \<^verbatim>\<open>login\<close> posts is \<^verbatim>\<open>j_username=sysadmin&j_password=b=c\<close>, and
  the form parser, splitting each field at its first \<^verbatim>\<open>=\<close>, reads the two fields
  with the password as it was given.
\<close>

theorem login_body_equals_sign_counterexample:
  "snd (login env_login credentials_2) =
       [PermissionRequest ''https://hub.example.com'',
        FetchCall \<lparr>req_url = ''https://hub.example.com/j_spring_security_check'',
          req_opts = login_opts ''j_username=sysadmin&j_password=b=c''\<rparr>]
   \<and> CHR ''='' \<in> set ''b=c''
   \<and> parse_form ''j_username=sysadmin&j_password=b=c'' =
       [(''j_username'', ''sysadmin''), (''j_password'', ''b=c'')]"
proof (intro conjI)
  have u: "get_prop credentials_2 ''username'' = Returns (JStr ''sysadmin'')"
    and p: "get_prop credentials_2 ''password'' = Returns (JStr ''b=c'')"
    by (simp_all add: credentials_2_def)
  have url: "getRequestUrl env_login (JStr ''/j_spring_security_check'') [] =
      Returns \<lparr>url_protocol = ''https:'', url_host = ''hub.example.com'',
        url_pathname = ''/j_spring_security_check'', url_query = None, url_fragment = None\<rparr>"
    by (simp add: env_login_def hub_example_def url_eval)
  have granted: "getOrigin env_login = ''https://hub.example.com''"
    "Permissions_requestUrl env_login ''https://hub.example.com'' = None"
    by (simp_all add: env_login_def getOrigin_def hub_example_def)
  show "snd (login env_login credentials_2) =
       [PermissionRequest ''https://hub.example.com'',
        FetchCall \<lparr>req_url = ''https://hub.example.com/j_spring_security_check'',
          req_opts = login_opts ''j_username=sysadmin&j_password=b=c''\<rparr>]"
    by (simp add: login_trace[OF u p] granted url href_def)
  show "CHR ''='' \<in> set ''b=c''" by simp
  have "parse_form (''j_username'' @ CHR ''='' # ''sysadmin'' @ CHR ''&'' # ''j_password'' @ CHR ''='' # ''b=c'') =
      [(form_decode ''j_username'', form_decode ''sysadmin''),
       (form_decode ''j_password'', form_decode ''b=c'')]"
    by (rule two_fields_intact) simp_all
  then show "parse_form ''j_username=sysadmin&j_password=b=c'' =
       [(''j_username'', ''sysadmin''), (''j_password'', ''b=c'')]"
    by (simp add: form_decode_def)
qed

text \<open>
  Claim C10 as amended: \<^verbatim>\<open>login\<close> posts the body \<^verbatim>\<open>j_username=\<close> +
  username + \<^verbatim>\<open>&j_password=\<close> + password, the two values put in as they are,
  with no percent-encoding. A username or password that holds \<^verbatim>\<open>&\<close> therefore
  changes the field structure of the form (the body has one more piece for every
  \<^verbatim>\<open>&\<close> of the values) and is not what the parser reads as the value of its
  field. Values that hold none of \<^verbatim>\<open>&\<close>, \<^verbatim>\<open>+\<close> and \<^verbatim>\<open>%\<close>, with
  \<^verbatim>\<open>=\<close> or without, are read back as they were given.
\<close>

theorem login_body_not_encoded:
  assumes "getOrigin e \<noteq> []"
      and "Permissions_requestUrl e (getOrigin e) = None"
      and "getRequestUrl e (JStr ''/j_spring_security_check'') [] = Returns url"
  shows "snd (login e (JObj [(''username'', JStr u), (''password'', JStr p)])) =
           [PermissionRequest (getOrigin e),
            FetchCall \<lparr>req_url = href url,
              req_opts = login_opts (''j_username='' @ u @ ''&j_password='' @ p)\<rparr>]
       \<and> (CHR ''&'' \<in> set u \<or> CHR ''&'' \<in> set p \<longrightarrow>
            parse_form (''j_username='' @ u @ ''&j_password='' @ p)
              \<noteq> [(''j_username'', u), (''j_password'', p)])
       \<and> length (split_on CHR ''&'' (''j_username='' @ u @ ''&j_password='' @ p)) =
            2 + length (filter (\<lambda>c. c = CHR ''&'') u) + length (filter (\<lambda>c. c = CHR ''&'') p)
       \<and> (CHR ''&'' \<notin> set (u @ p) \<and> CHR ''+'' \<notin> set (u @ p) \<and> CHR ''%'' \<notin> set (u @ p) \<longrightarrow>
            parse_form (''j_username='' @ u @ ''&j_password='' @ p)
              = [(''j_username'', u), (''j_password'', p)])"
proof (intro conjI impI)
  have "get_prop (JObj [(''username'', JStr u), (''password'', JStr p)]) ''username'' = Returns (JStr u)"
    and "get_prop (JObj [(''username'', JStr u), (''password'', JStr p)]) ''password'' = Returns (JStr p)"
    by simp_all
  from login_trace[OF this] assms
  show "snd (login e (JObj [(''username'', JStr u), (''password'', JStr p)])) =
           [PermissionRequest (getOrigin e),
            FetchCall \<lparr>req_url = href url,
              req_opts = login_opts (''j_username='' @ u @ ''&j_password='' @ p)\<rparr>]"
    by simp
next
  assume "CHR ''&'' \<in> set u \<or> CHR ''&'' \<in> set p"
  then have "parse_form (''j_username'' @ CHR ''='' # u @ CHR ''&'' # ''j_password'' @ CHR ''='' # p)
      \<noteq> [(''j_username'', u), (''j_password'', p)]"
    by (intro two_fields_broken field_names_plain)
  then show "parse_form (''j_username='' @ u @ ''&j_password='' @ p)
      \<noteq> [(''j_username'', u), (''j_password'', p)]"
    by simp
next
  show "length (split_on CHR ''&'' (''j_username='' @ u @ ''&j_password='' @ p)) =
      2 + length (filter (\<lambda>c. c = CHR ''&'') u) + length (filter (\<lambda>c. c = CHR ''&'') p)"
    unfolding length_split_on by simp
next
  assume plain: "CHR ''&'' \<notin> set (u @ p) \<and> CHR ''+'' \<notin> set (u @ p) \<and> CHR ''%'' \<notin> set (u @ p)"
  then have "parse_form (''j_username'' @ CHR ''='' # u @ CHR ''&'' # ''j_password'' @ CHR ''='' # p) =
      [(form_decode ''j_username'', form_decode u), (form_decode ''j_password'', form_decode p)]"
    by (intro two_fields_intact field_names_plain) auto
  moreover from plain have "form_decode u = u" "form_decode p = p"
    by (auto intro: form_decode_plain)
  ultimately show "parse_form (''j_username='' @ u @ ''&j_password='' @ p)
      = [(''j_username'', u), (''j_password'', p)]"
    by (simp add: field_names_plain)
qed

theorem login_body_not_encoded_witness:
  "snd (login env_login credentials_1) =
       [PermissionRequest ''https://hub.example.com'',
        FetchCall \<lparr>req_url = ''https://hub.example.com/j_spring_security_check'',
          req_opts = login_opts ''j_username=sysadmin&j_password=a&b=c''\<rparr>]
   \<and> parse_form ''j_username=sysadmin&j_password=a&b=c''
       \<noteq> [(''j_username'', ''sysadmin''), (''j_password'', ''a&b=c'')]
   \<and> parse_form ''j_username=sysadmin&j_password=a&b=c''
       = [(''j_username'', ''sysadmin''), (''j_password'', ''a''), (''b'', ''c'')]
   \<and> length (split_on CHR ''&'' ''j_username=sysadmin&j_password=a&b=c'') = 3"
proof -
  have o: "getOrigin env_login \<noteq> []"
    and g: "Permissions_requestUrl env_login (getOrigin env_login) = None"
    by (simp_all add: env_login_def getOrigin_def hub_example_def)
  have url: "getRequestUrl env_login (JStr ''/j_spring_security_check'') [] =
      Returns \<lparr>url_protocol = ''https:'', url_host = ''hub.example.com'',
        url_pathname = ''/j_spring_security_check'', url_query = None, url_fragment = None\<rparr>"
    by (simp add: env_login_def hub_example_def url_eval)
  have origin: "getOrigin env_login = ''https://hub.example.com''"
    by (simp add: env_login_def getOrigin_def hub_example_def)
  note inst = login_body_not_encoded[OF o g url, of "''sysadmin''" "''a&b=c''"]
  have t: "snd (login env_login credentials_1) =
       [PermissionRequest ''https://hub.example.com'',
        FetchCall \<lparr>req_url = ''https://hub.example.com/j_spring_security_check'',
          req_opts = login_opts ''j_username=sysadmin&j_password=a&b=c''\<rparr>]"
    using inst[THEN conjunct1] by (simp add: credentials_1_def origin href_def)
  have n: "parse_form ''j_username=sysadmin&j_password=a&b=c''
       \<noteq> [(''j_username'', ''sysadmin''), (''j_password'', ''a&b=c'')]"
    using inst[THEN conjunct2, THEN conjunct1] by simp
  have l: "length (split_on CHR ''&'' ''j_username=sysadmin&j_password=a&b=c'') = 3"
    using inst[THEN conjunct2, THEN conjunct2, THEN conjunct1] by simp
  have v: "parse_form ''j_username=sysadmin&j_password=a&b=c''
       = [(''j_username'', ''sysadmin''), (''j_password'', ''a''), (''b'', ''c'')]"
    by (simp add: parse_form_def parse_pair_def form_decode_def)
  show ?thesis
    by (intro conjI) (rule t n v l)+
qed

subsection \<open>Vulnerabilities\<close>

lemma put_prop_lookup [simp]: "map_of (put_prop ps k x) k = Some x"
  by (induction ps k x rule: put_prop.induct) auto

lemma withDetailsUrl_object:
  "withDetailsUrl e (JObj ps) =
     Returns (JObj (put_prop ps ''detailsUrl''
       (JStr (detailsUrl_by_source (getOrigin e) (field ps ''source'')
                (ToString (field ps ''vulnerabilityName''))))))"
  by (cases "field ps ''source''")
     (auto simp: withDetailsUrl_def detailsUrl_by_source_def field_def)

lemma mapC_withDetailsUrl:
  "mapC (withDetailsUrl e) (map JObj pss) =
     Returns (map (\<lambda>ps. JObj (put_prop ps ''detailsUrl''
       (JStr (detailsUrl_by_source (getOrigin e) (field ps ''source'')
                (ToString (field ps ''vulnerabilityName'')))))) pss)"
  by (induction pss) (simp_all add: withDetailsUrl_object)

text \<open>
  Claim C7: \<^verbatim>\<open>getComponentVulnerabilities\<close> gives every fetched vulnerability a
  \<^verbatim>\<open>detailsUrl\<close> by its \<^verbatim>\<open>source\<close>, the entries in the order they were
  fetched in; for the source \<^verbatim>\<open>NVD\<close> and the name \<^verbatim>\<open>CVE-2020-1\<close> it is the
  NVD search URL of the claim, for \<^verbatim>\<open>VULNDB\<close> and the origin
  \<^verbatim>\<open>https://hub.example.com\<close> the path on that origin, for any other source the
  empty string.
\<close>

theorem getComponentVulnerabilities_detailsUrl:
  assumes "getListRelation e cv ''vulnerabilities'' = (Resolved (JArr (map JObj pss)), t)"
  shows "getComponentVulnerabilities e cv =
           (Resolved (JArr (map (\<lambda>ps. JObj (put_prop ps ''detailsUrl''
              (JStr (detailsUrl_by_source (getOrigin e) (field ps ''source'')
                       (ToString (field ps ''vulnerabilityName'')))))) pss)), t)
       \<and> detailsUrl_by_source origin (JStr ''NVD'') ''CVE-2020-1''
           = ''https://web.nvd.nist.gov/view/vuln/search-results?query=CVE-2020-1&search_type=all&cves=on''
       \<and> detailsUrl_by_source ''https://hub.example.com'' (JStr ''VULNDB'') ''CVE-2020-1''
           = ''https://hub.example.com/#vulnerabilities/id:CVE-2020-1/view:overview''
       \<and> (source \<noteq> JStr ''NVD'' \<and> source \<noteq> JStr ''VULNDB'' \<longrightarrow>
            detailsUrl_by_source origin source name = [])"
proof (intro conjI)
  show "getComponentVulnerabilities e cv =
           (Resolved (JArr (map (\<lambda>ps. JObj (put_prop ps ''detailsUrl''
              (JStr (detailsUrl_by_source (getOrigin e) (field ps ''source'')
                       (ToString (field ps ''vulnerabilityName'')))))) pss)), t)"
    using assms by (simp add: getComponentVulnerabilities_def mapC_withDetailsUrl)
qed (simp_all add: detailsUrl_by_source_def)

lemma getListRelation_vulnerabilities:
  "getListRelation env_vulnerabilities component_version_1 ''vulnerabilities'' =
     (Resolved (JArr (map JObj
        [[(''source'', JStr ''NVD''), (''vulnerabilityName'', JStr ''CVE-2020-1'')],
         [(''source'', JStr ''VULNDB''), (''vulnerabilityName'', JStr ''CVE-2020-1'')],
         [(''source'', JStr ''OTHER''), (''vulnerabilityName'', JStr ''CVE-2020-1'')]])),
      [FetchCall \<lparr>req_url = ''https://hub.example.com/api/components/7/versions/9/vulnerabilities?limit=10000'',
         req_opts = \<lparr>opt_credentials = Some ''include'', opt_method = Some ''GET'',
           opt_headers = None, opt_body = None\<rparr>\<rparr>])"
  by (simp add: getListRelation_def getRelation_def getFirstLink_def Hub_get_def Hub_fetch_def
      fetch_request_def assign_opts_def no_opts_def orElse_def href_def
      component_version_1_def env_vulnerabilities_def hub_example_def url_eval
      vulnerability_nvd_def vulnerability_vulndb_def vulnerability_other_def)

theorem getComponentVulnerabilities_detailsUrl_witness:
  "getComponentVulnerabilities env_vulnerabilities component_version_1 =
     (Resolved (JArr
        [JObj [(''source'', JStr ''NVD''), (''vulnerabilityName'', JStr ''CVE-2020-1''),
               (''detailsUrl'', JStr ''https://web.nvd.nist.gov/view/vuln/search-results?query=CVE-2020-1&search_type=all&cves=on'')],
         JObj [(''source'', JStr ''VULNDB''), (''vulnerabilityName'', JStr ''CVE-2020-1''),
               (''detailsUrl'', JStr ''https://hub.example.com/#vulnerabilities/id:CVE-2020-1/view:overview'')],
         JObj [(''source'', JStr ''OTHER''), (''vulnerabilityName'', JStr ''CVE-2020-1''),
               (''detailsUrl'', JStr [])]]),
      [FetchCall \<lparr>req_url = ''https://hub.example.com/api/components/7/versions/9/vulnerabilities?limit=10000'',
         req_opts = \<lparr>opt_credentials = Some ''include'', opt_method = Some ''GET'',
           opt_headers = None, opt_body = None\<rparr>\<rparr>])"
proof -
  have origin: "getOrigin env_vulnerabilities = ''https://hub.example.com''"
    by (simp add: env_vulnerabilities_def getOrigin_def hub_example_def)
  show ?thesis
    using getComponentVulnerabilities_detailsUrl[OF getListRelation_vulnerabilities, THEN conjunct1]
    by (simp add: origin detailsUrl_by_source_def field_def)
qed

subsection \<open>Matching BOM components\<close>

lemma Promise_all_map:
  "\<forall>x \<in> set xs. f x = Resolved (g x) \<Longrightarrow> Promise_all (map f xs) = Resolved (map g xs)"
  by (induction xs) simp_all

lemma filterC_objects:
  "filterC (\<lambda>c. case get_prop c k of Throws x \<Rightarrow> Throws x
                 | Returns y \<Rightarrow> Returns (strict_equals y v)) (map JObj cs)
   = Returns (map JObj (filter (\<lambda>ps. strict_equals (field ps k) v) cs))"
  by (induction cs) (simp_all add: field_def)

lemma matchingComponents_objects:
  assumes "fst (getProjectVersionComponents e pv) = Resolved (JArr (map JObj cs))"
  shows "fst (matchingComponents e v pv) =
     Resolved (map JObj (filter (\<lambda>ps. strict_equals (field ps ''componentVersion'') v) cs))"
proof -
  obtain t where "getProjectVersionComponents e pv = (Resolved (JArr (map JObj cs)), t)"
    using assms by (cases "getProjectVersionComponents e pv") simp
  then show ?thesis
    by (simp add: matchingComponents_def filterC_objects)
qed

lemma snd_matchingComponents:
  "snd (matchingComponents e v pv) = snd (getProjectVersionComponents e pv)"
  by (cases "getProjectVersionComponents e pv")
     (auto simp: matchingComponents_def split: promise.splits option.splits completion.splits)

text \<open>
  Claim C8: \<^verbatim>\<open>getMatchingBOMComponents\<close> returns the BOM entries whose
  \<^verbatim>\<open>componentVersion\<close> field is strictly equal to the \<^verbatim>\<open>version\<close> field of
  the external component (for two strings: the same string, nothing normalised), the
  entries of each project version in the order of its BOM and the project versions in
  the order they were given in; the BOM of a project version is what its
  \<^verbatim>\<open>components\<close> relation lists, fetched once per project version in that order.
\<close>

theorem getMatchingBOMComponents_filter:
  assumes "get_prop externalComponent ''version'' = Returns version"
      and "\<forall>pv \<in> set pvs. fst (getProjectVersionComponents e pv) = Resolved (JArr (map JObj (bom pv)))"
  shows "fst (getMatchingBOMComponents e externalComponent pvs) =
           Resolved (JArr (concat (map (\<lambda>pv. map JObj
             (filter (\<lambda>ps. strict_equals (field ps ''componentVersion'') version) (bom pv))) pvs)))
       \<and> snd (getMatchingBOMComponents e externalComponent pvs) =
           concat (map (\<lambda>pv. snd (getProjectVersionComponents e pv)) pvs)
       \<and> (\<forall>a b. strict_equals (JStr a) (JStr b) \<longleftrightarrow> a = b)"
proof (intro conjI)
  have "Promise_all (map (\<lambda>pv. fst (matchingComponents e version pv)) pvs) =
      Resolved (map (\<lambda>pv. map JObj
        (filter (\<lambda>ps. strict_equals (field ps ''componentVersion'') version) (bom pv))) pvs)"
    using assms(2) by (intro Promise_all_map) (simp add: matchingComponents_objects)
  then show "fst (getMatchingBOMComponents e externalComponent pvs) =
           Resolved (JArr (concat (map (\<lambda>pv. map JObj
             (filter (\<lambda>ps. strict_equals (field ps ''componentVersion'') version) (bom pv))) pvs)))"
    using assms(1) by (simp add: getMatchingBOMComponents_def Let_def comp_def)
  show "snd (getMatchingBOMComponents e externalComponent pvs) =
           concat (map (\<lambda>pv. snd (getProjectVersionComponents e pv)) pvs)"
    using assms(1) by (simp add: getMatchingBOMComponents_def Let_def comp_def snd_matchingComponents)
  show "\<forall>a b. strict_equals (JStr a) (JStr b) \<longleftrightarrow> a = b"
    by auto
qed

lemma components_1:
  "fst (getProjectVersionComponents env_boms project_version_1) = Resolved (JArr (map JObj bom_1))"
  by (simp add: getProjectVersionComponents_def getListRelation_def getRelation_def getFirstLink_def
      Hub_get_def Hub_fetch_def fetch_request_def assign_opts_def no_opts_def orElse_def href_def
      project_version_1_def env_boms_def hub_example_def url_eval)

lemma components_2:
  "fst (getProjectVersionComponents env_boms project_version_2) = Resolved (JArr (map JObj bom_2))"
  by (simp add: getProjectVersionComponents_def getListRelation_def getRelation_def getFirstLink_def
      Hub_get_def Hub_fetch_def fetch_request_def assign_opts_def no_opts_def orElse_def href_def
      project_version_2_def env_boms_def hub_example_def url_eval)

theorem getMatchingBOMComponents_filter_witness:
  "fst (getMatchingBOMComponents env_boms (JObj [(''version'', JStr ''V1'')])
          [project_version_1, project_version_2]) =
     Resolved (JArr [JObj [(''componentName'', JStr ''a''), (''componentVersion'', JStr ''V1'')],
                     JObj [(''componentName'', JStr ''c''), (''componentVersion'', JStr ''V1'')]])"
proof -
  have v: "get_prop (JObj [(''version'', JStr ''V1'')]) ''version'' = Returns (JStr ''V1'')"
    by simp
  have distinct: "project_version_2 \<noteq> project_version_1"
    by (simp add: project_version_1_def project_version_2_def)
  have boms: "\<forall>pv \<in> set [project_version_1, project_version_2].
      fst (getProjectVersionComponents env_boms pv) =
        Resolved (JArr (map JObj ((\<lambda>pv. if pv = project_version_1 then bom_1 else bom_2) pv)))"
    using distinct by (simp add: components_1 components_2)
  show ?thesis
    using getMatchingBOMComponents_filter[OF v boms, THEN conjunct1] distinct
    by (simp add: bom_1_def bom_2_def field_def)
qed

subsection \<open>Reference projects\<close>

lemma getReferenceProjectVersion_fails:
  assumes "getRequestUrl e (field r ''projectVersionUrl'') [] = Returns u"
      and "fetch_fails (global_fetch e (fetch_request u get_opts))"
  shows "getReferenceProjectVersion e (JObj r) = (Resolved JNull, [FetchCall (fetch_request u get_opts)])"
proof -
  obtain x where "fst (Hub_fetch e u get_opts) = Rejected x"
    using Hub_fetch_fails[OF assms(2)] by blast
  then show ?thesis
    using assms(1) by (simp add: getReferenceProjectVersion_def field_def Hub_get_Returns)
qed

lemma getReferenceProjectVersion_succeeds:
  assumes "getRequestUrl e (field r ''projectVersionUrl'') [] = Returns u"
      and "global_fetch e (fetch_request u get_opts) = NetResponds \<lparr>resp_ok = True, resp_json = Some (JObj ps)\<rparr>"
  shows "getReferenceProjectVersion e (JObj r) =
     (Resolved (JObj (put_prop ps ''projectName'' (field r ''projectName''))),
      [FetchCall (fetch_request u get_opts)])"
proof -
  have "fst (Hub_fetch e u get_opts) = Resolved (JObj ps)"
    using assms(2) by (simp add: Hub_fetch_def Let_def)
  then show ?thesis
    using assms(1) by (simp add: getReferenceProjectVersion_def field_def Hub_get_Returns)
qed

text \<open>
  Claim C9: when the \<^verbatim>\<open>references\<close> relation of a component version lists \<open>n\<close>
  references, \<^verbatim>\<open>getComponentVersionReferenceProjects\<close> returns a sequence of
  \<open>n\<close> elements, the one at position \<open>i\<close> for reference \<open>i\<close>: null when the
  fetch of its \<^verbatim>\<open>projectVersionUrl\<close> fails, and the fetched project version with
  \<^verbatim>\<open>projectName\<close> set to the reference's when it succeeds. One request goes out
  per reference, in the order of the references.
\<close>

theorem getComponentVersionReferenceProjects_aligned:
  assumes "getComponentVersionReferences e cv = (Resolved (JArr (map JObj rs)), t)"
      and "\<forall>r \<in> set rs. getRequestUrl e (field r ''projectVersionUrl'') [] = Returns (url r)"
      and "\<forall>r \<in> set rs.
             fetch_fails (global_fetch e (fetch_request (url r) get_opts))
             \<or> (\<exists>ps. global_fetch e (fetch_request (url r) get_opts) =
                        NetResponds \<lparr>resp_ok = True, resp_json = Some (JObj ps)\<rparr>)"
  shows "\<exists>vs. getComponentVersionReferenceProjects e cv =
                 (Resolved (JArr vs), t @ map (\<lambda>r. FetchCall (fetch_request (url r) get_opts)) rs)
           \<and> length vs = length rs
           \<and> (\<forall>i < length rs.
                (fetch_fails (global_fetch e (fetch_request (url (rs ! i)) get_opts)) \<longrightarrow> vs ! i = JNull)
              \<and> (\<forall>ps. global_fetch e (fetch_request (url (rs ! i)) get_opts) =
                        NetResponds \<lparr>resp_ok = True, resp_json = Some (JObj ps)\<rparr> \<longrightarrow>
                      vs ! i = JObj (put_prop ps ''projectName'' (field (rs ! i) ''projectName''))))"
proof -
  define g where "g r =
     (case global_fetch e (fetch_request (url r) get_opts) of
        NetRejects x \<Rightarrow> JNull
      | NetResponds resp \<Rightarrow>
          if resp_ok resp
          then (case resp_json resp of
                  Some (JObj ps) \<Rightarrow> JObj (put_prop ps ''projectName'' (field r ''projectName''))
                | _ \<Rightarrow> JNull)
          else JNull)" for r
  have each: "getReferenceProjectVersion e (JObj r) =
      (Resolved (g r), [FetchCall (fetch_request (url r) get_opts)])" if "r \<in> set rs" for r
  proof -
    have u: "getRequestUrl e (field r ''projectVersionUrl'') [] = Returns (url r)"
      using assms(2) that by blast
    from assms(3) that consider
        (fails) "fetch_fails (global_fetch e (fetch_request (url r) get_opts))"
      | (succeeds) ps where "global_fetch e (fetch_request (url r) get_opts) =
          NetResponds \<lparr>resp_ok = True, resp_json = Some (JObj ps)\<rparr>"
      by blast
    then show ?thesis
    proof cases
      case fails
      then have "g r = JNull"
        by (auto simp: g_def fetch_fails_def split: net_outcome.splits)
      then show ?thesis
        using getReferenceProjectVersion_fails[OF u fails] by simp
    next
      case succeeds
      then have "g r = JObj (put_prop ps ''projectName'' (field r ''projectName''))"
        by (simp add: g_def)
      then show ?thesis
        using getReferenceProjectVersion_succeeds[OF u succeeds] by simp
    qed
  qed
  have settled: "Promise_all (map (\<lambda>r. fst (getReferenceProjectVersion e (JObj r))) rs) = Resolved (map g rs)"
    by (intro Promise_all_map) (simp add: each)
  have issued: "concat (map (\<lambda>r. snd (getReferenceProjectVersion e (JObj r))) rs) =
      map (\<lambda>r. FetchCall (fetch_request (url r) get_opts)) rs"
    using each by (induction rs) simp_all
  have result: "getComponentVersionReferenceProjects e cv =
      (Resolved (JArr (map g rs)), t @ map (\<lambda>r. FetchCall (fetch_request (url r) get_opts)) rs)"
    using assms(1) settled issued
    by (simp add: getComponentVersionReferenceProjects_def Let_def comp_def)
  have "\<forall>i < length rs.
      (fetch_fails (global_fetch e (fetch_request (url (rs ! i)) get_opts)) \<longrightarrow> map g rs ! i = JNull)
    \<and> (\<forall>ps. global_fetch e (fetch_request (url (rs ! i)) get_opts) =
              NetResponds \<lparr>resp_ok = True, resp_json = Some (JObj ps)\<rparr> \<longrightarrow>
            map g rs ! i = JObj (put_prop ps ''projectName'' (field (rs ! i) ''projectName'')))"
    by (auto simp: g_def fetch_fails_def split: net_outcome.splits)
  with result show ?thesis
    by (intro exI[of _ "map g rs"]) simp
qed


lemma references_listed:
  "getComponentVersionReferences env_references component_version_1 =
     (Resolved (JArr (map JObj [reference_1, reference_2])),
      [FetchCall \<lparr>req_url = ''https://hub.example.com/api/components/7/versions/9/references?limit=10000'',
         req_opts = \<lparr>opt_credentials = Some ''include'', opt_method = Some ''GET'',
           opt_headers = None, opt_body = None\<rparr>\<rparr>])"
  by (simp add: getComponentVersionReferences_def getListRelation_def getRelation_def getFirstLink_def
      Hub_get_def Hub_fetch_def fetch_request_def assign_opts_def no_opts_def orElse_def href_def
      component_version_1_def env_references_def hub_example_def url_eval)

theorem getComponentVersionReferenceProjects_aligned_witness:
  "getComponentVersionReferenceProjects env_references component_version_1 =
     (Resolved (JArr [JObj [(''versionName'', JStr ''1.0''), (''projectName'', JStr ''alpha'')], JNull]),
      [FetchCall \<lparr>req_url = ''https://hub.example.com/api/components/7/versions/9/references?limit=10000'',
         req_opts = \<lparr>opt_credentials = Some ''include'', opt_method = Some ''GET'',
           opt_headers = None, opt_body = None\<rparr>\<rparr>,
       FetchCall \<lparr>req_url = ''https://hub.example.com/api/projects/1/versions/1'',
         req_opts = \<lparr>opt_credentials = Some ''include'', opt_method = Some ''GET'',
           opt_headers = None, opt_body = None\<rparr>\<rparr>,
       FetchCall \<lparr>req_url = ''https://hub.example.com/api/projects/2/versions/5'',
         req_opts = \<lparr>opt_credentials = Some ''include'', opt_method = Some ''GET'',
           opt_headers = None, opt_body = None\<rparr>\<rparr>])"
proof -
  let ?u1 = "\<lparr>url_protocol = ''https:'', url_host = ''hub.example.com'',
       url_pathname = ''/api/projects/1/versions/1'', url_query = None, url_fragment = None\<rparr>"
  let ?u2 = "\<lparr>url_protocol = ''https:'', url_host = ''hub.example.com'',
       url_pathname = ''/api/projects/2/versions/5'', url_query = None, url_fragment = None\<rparr>"
  let ?url = "\<lambda>r. if r = reference_1 then ?u1 else ?u2"
  have distinct: "reference_2 \<noteq> reference_1"
    by (simp add: reference_1_def reference_2_def)
  have u1: "getRequestUrl env_references (field reference_1 ''projectVersionUrl'') [] = Returns ?u1"
    by (simp add: reference_1_def field_def url_eval)
  have u2: "getRequestUrl env_references (field reference_2 ''projectVersionUrl'') [] = Returns ?u2"
    by (simp add: reference_2_def field_def url_eval)
  have urls: "\<forall>r \<in> set [reference_1, reference_2].
      getRequestUrl env_references (field r ''projectVersionUrl'') [] = Returns (?url r)"
    using distinct u1 u2 by simp
  have r1: "fetch_request ?u1 get_opts =
      \<lparr>req_url = ''https://hub.example.com/api/projects/1/versions/1'',
         req_opts = \<lparr>opt_credentials = Some ''include'', opt_method = Some ''GET'',
           opt_headers = None, opt_body = None\<rparr>\<rparr>"
    by (simp add: fetch_request_def get_opts_def assign_opts_def no_opts_def orElse_def href_def)
  have r2: "fetch_request ?u2 get_opts =
      \<lparr>req_url = ''https://hub.example.com/api/projects/2/versions/5'',
         req_opts = \<lparr>opt_credentials = Some ''include'', opt_method = Some ''GET'',
           opt_headers = None, opt_body = None\<rparr>\<rparr>"
    by (simp add: fetch_request_def get_opts_def assign_opts_def no_opts_def orElse_def href_def)
  have o1: "global_fetch env_references (fetch_request ?u1 get_opts) =
      NetResponds \<lparr>resp_ok = True, resp_json = Some (JObj [(''versionName'', JStr ''1.0'')])\<rparr>"
    by (simp add: r1 env_references_def)
  have o2: "global_fetch env_references (fetch_request ?u2 get_opts) = NetRejects TypeError"
    by (simp add: r2 env_references_def)
  have outcomes: "\<forall>r \<in> set [reference_1, reference_2].
      fetch_fails (global_fetch env_references (fetch_request (?url r) get_opts))
      \<or> (\<exists>ps. global_fetch env_references (fetch_request (?url r) get_opts) =
                 NetResponds \<lparr>resp_ok = True, resp_json = Some (JObj ps)\<rparr>)"
    using distinct o1 o2 by (simp add: fetch_fails_def)
  from getComponentVersionReferenceProjects_aligned[OF references_listed urls outcomes]
  obtain vs where
        res: "getComponentVersionReferenceProjects env_references component_version_1 =
          (Resolved (JArr vs),
           [FetchCall \<lparr>req_url = ''https://hub.example.com/api/components/7/versions/9/references?limit=10000'',
              req_opts = \<lparr>opt_credentials = Some ''include'', opt_method = Some ''GET'',
                opt_headers = None, opt_body = None\<rparr>\<rparr>]
           @ map (\<lambda>r. FetchCall (fetch_request (?url r) get_opts)) [reference_1, reference_2])"
    and len: "length vs = length [reference_1, reference_2]"
    and at: "\<forall>i < length [reference_1, reference_2].
        (fetch_fails (global_fetch env_references
            (fetch_request (?url ([reference_1, reference_2] ! i)) get_opts)) \<longrightarrow> vs ! i = JNull)
      \<and> (\<forall>ps. global_fetch env_references
              (fetch_request (?url ([reference_1, reference_2] ! i)) get_opts) =
              NetResponds \<lparr>resp_ok = True, resp_json = Some (JObj ps)\<rparr> \<longrightarrow>
            vs ! i = JObj (put_prop ps ''projectName'' (field ([reference_1, reference_2] ! i) ''projectName'')))"
    by blast
  from len obtain a b where vs: "vs = [a, b]"
    by (auto simp: length_Suc_conv)
  from at[rule_format, of 0] o1 have a: "a = JObj [(''versionName'', JStr ''1.0''), (''projectName'', JStr ''alpha'')]"
    by (simp add: vs field_def reference_1_def)
  from at[rule_format, of 1] o2 distinct have b: "b = JNull"
    by (simp add: vs fetch_fails_def)
  show ?thesis
    using res distinct by (simp add: vs a b r1 r2)
qed

subsection \<open>The rejections that reach Promise.all\<close>

lemma Hub_get_throws: "Hub_get e b q opts = (Throws x, t) \<Longrightarrow> x = TypeError"
  by (cases "getRequestUrl e b q")
     (auto simp: Hub_get_def split_beta dest: getRequestUrl_throws)

lemma catch_null_resolves: "catch_null p \<noteq> Rejected x"
  by (cases p) simp_all

lemma getListRelation_rejects:
  assumes "fst (getListRelation e R N) = Rejected x"
  shows "x = TypeError"
proof -
  from getRelation_throws_or_fetches[of e R N] show ?thesis
  proof
    assume "getRelation e R N = (Throws TypeError, [])"
    with assms show ?thesis by (simp add: getListRelation_def)
  next
    assume "\<exists>v r. getRelation e R N = (Returns (Resolved v), [FetchCall r])"
    then obtain v r where "getRelation e R N = (Returns (Resolved v), [FetchCall r])" by blast
    with assms show ?thesis
      by (auto simp: getListRelation_def split: if_splits completion.splits dest: get_prop_throws)
  qed
qed

lemma filterC_throws:
  assumes "\<And>c y. f c = Throws y \<Longrightarrow> y = TypeError"
  shows "filterC f cs = Throws x \<Longrightarrow> x = TypeError"
  by (induction cs) (auto split: completion.splits dest: assms)

lemma matchingComponents_rejects:
  assumes "fst (matchingComponents e v pv) = Rejected x"
  shows "x = TypeError"
proof (cases "getProjectVersionComponents e pv")
  case (Pair p t)
  show ?thesis
  proof (cases p)
    case (Rejected y)
    with Pair assms have "x = y" by (simp add: matchingComponents_def)
    moreover have "y = TypeError"
      using getListRelation_rejects[of e pv "''components''" y] Pair Rejected
      by (simp add: getProjectVersionComponents_def)
    ultimately show ?thesis by simp
  next
    case (Resolved b)
    have "\<And>c y. (case get_prop c ''componentVersion'' of Throws x \<Rightarrow> Throws x
                   | Returns w \<Rightarrow> Returns (strict_equals w v)) = Throws y \<Longrightarrow> y = TypeError"
      by (auto split: completion.splits dest: get_prop_throws)
    from filterC_throws[OF this] Pair Resolved assms show ?thesis
      by (auto simp: matchingComponents_def split: option.splits completion.splits)
  qed
qed

lemma getReferenceProjectVersion_rejects:
  assumes "fst (getReferenceProjectVersion e r) = Rejected x"
  shows "x = TypeError"
  using assms
  by (auto simp: getReferenceProjectVersion_def Let_def catch_null_resolves
      split: completion.splits prod.splits promise.splits if_splits
      dest: get_prop_throws set_prop_throws Hub_get_throws)

end
